theory Spec2Isabelle
  imports Main
begin

text \<open>
  A model of the message runtime of neorest: the message types (\<open>types.ts\<close>), the tracked
  promise, the per-connection engine (\<open>Connection.ts\<close>, in its variant over a communication
  strategy; the socket-based variant has the same methods over a bare socket, plus the
  handshake of \<open>setSocket\<close>) and the router's directory, outbound layers and broadcast
  (\<open>Router.ts\<close>). A method that mutates the object takes the state and returns the new one;
  a method that can throw returns a \<open>Completion\<close>; a loop is a recursive function; what is
  asynchronous (a route handler's promise, a validator's promise) is a value that a later
  event settles. The inbound route table of the router and the client wrapper are not
  modelled: no statement below depends on them.
\<close>

section \<open>Message model (types.ts)\<close>

type_synonym MsgID = int
type_synonym ConnectionSecret = string

text \<open>
  A payload is a JSON value. \<open>PUndefined\<close> stands for JavaScript's \<open>undefined\<close> (an omitted
  optional argument or a missing property); numbers are modelled as integers.
\<close>

datatype Payload =
    PUndefined
  | PNull
  | PBool bool
  | PNum int
  | PStr string
  | PArr "Payload list"
  | PObj "(string \<times> Payload) list"

text \<open>JavaScript truthiness of a payload, as used by \<open>payload ? payload : ""\<close> and \<open>!resp.error\<close>.\<close>

fun truthy :: "Payload \<Rightarrow> bool" where
  "truthy PUndefined = False"
| "truthy PNull = False"
| "truthy (PBool b) = b"
| "truthy (PNum n) = (n \<noteq> 0)"
| "truthy (PStr s) = (s \<noteq> [])"
| "truthy (PArr xs) = True"
| "truthy (PObj kvs) = True"

text \<open>
  The message body is a variant tagged by the string \<open>type\<close>: \<open>set\<close>, \<open>ping\<close>, \<open>on\<close>, \<open>off\<close>,
  \<open>route\<close> and \<open>res\<close>. \<open>MsgOther t\<close> is a body with any other tag; the verb of a route
  message is the string on the wire.
\<close>

datatype MsgType =
    MsgDataSet string Payload
  | MsgPing
  | MsgSubscribeToRoute string
  | MsgUnsubscribeFromRoute string
  | MsgRoute string string Payload "(string \<times> string) list option"
  | MsgResponse int int Payload
  | MsgOther string

record MsgWrapper =
  idW :: MsgID
  msg :: MsgType

record SentMessages =
  wrappedMsg :: MsgWrapper
  sentAt :: int
  sentAmount :: int

text \<open>
  \<open>RouteResponse\<close>: \<open>error\<close> is optional in the source; \<open>PUndefined\<close> is the absent field.
  The field holds whatever value the peer sent, since \<open>msg.data as string\<close> does not convert.
\<close>

record RouteResponse =
  rdata :: Payload
  rerror :: Payload

definition msg_ConnDataSet :: "string \<Rightarrow> Payload \<Rightarrow> MsgType" where
  "msg_ConnDataSet key v = MsgDataSet key v"

definition pingMsg :: MsgType where
  "pingMsg = MsgPing"

definition new_MsgSubscribeToRoute :: "string \<Rightarrow> MsgType" where
  "new_MsgSubscribeToRoute route = MsgSubscribeToRoute route"

definition new_MsgUnsubscribeFromRoute :: "string \<Rightarrow> MsgType" where
  "new_MsgUnsubscribeFromRoute route = MsgUnsubscribeFromRoute route"

definition new_MsgResponse :: "int \<Rightarrow> int \<Rightarrow> Payload \<Rightarrow> MsgType" where
  "new_MsgResponse targetMsgId status d = MsgResponse targetMsgId status d"

text \<open>\<open>new_MsgResponseOK(target, data?)\<close>: an omitted or undefined \<open>data\<close> becomes \<open>"OK"\<close>.\<close>

definition new_MsgResponseOK :: "int \<Rightarrow> Payload \<Rightarrow> MsgType" where
  "new_MsgResponseOK targetMsgId d =
     new_MsgResponse targetMsgId 200 (if d \<noteq> PUndefined then d else PStr ''OK'')"

definition new_MsgResponseWithCode :: "int \<Rightarrow> int \<Rightarrow> Payload \<Rightarrow> MsgType" where
  "new_MsgResponseWithCode targetMsgId status txt = MsgResponse targetMsgId status txt"

definition new_MsgNotFound :: "int \<Rightarrow> Payload \<Rightarrow> MsgType" where
  "new_MsgNotFound targetMsgId txt = new_MsgResponseWithCode targetMsgId 404 txt"

definition new_MsgGenericError :: "int \<Rightarrow> Payload \<Rightarrow> MsgType" where
  "new_MsgGenericError targetMsgId txt = new_MsgResponseWithCode targetMsgId 500 txt"

definition new_RouteResponse :: "Payload \<Rightarrow> RouteResponse" where
  "new_RouteResponse d = \<lparr>rdata = d, rerror = PUndefined\<rparr>"

definition new_RouteResponseError :: "Payload \<Rightarrow> RouteResponse" where
  "new_RouteResponseError e = \<lparr>rdata = PStr [], rerror = e\<rparr>"

definition new_MsgRoute ::
  "string \<Rightarrow> string \<Rightarrow> Payload \<Rightarrow> (string \<times> string) list option \<Rightarrow> MsgType" where
  "new_MsgRoute route verb d headers = MsgRoute route verb d headers"

definition new_MsgWrapper :: "MsgID \<Rightarrow> MsgType \<Rightarrow> MsgWrapper" where
  "new_MsgWrapper i m = \<lparr>idW = i, msg = m\<rparr>"

definition new_SendAndForgetMsgWrapper :: "MsgType \<Rightarrow> MsgWrapper" where
  "new_SendAndForgetMsgWrapper m = \<lparr>idW = -1, msg = m\<rparr>"

section \<open>Tracked outcome (helpers/trackedPromise.ts)\<close>

text \<open>
  What \<open>handleMessage\<close> holds in its variable \<open>response\<close> is either a response value or the
  promise returned by the asynchronous \<open>handleRouteMessage\<close>. A promise is identified by the
  position of its handler call in the connection's log of \<open>onRouteMessage\<close> calls; the
  connection's store \<open>settled\<close> records how each promise ended, if it has.
\<close>

datatype Response = Value MsgType | Promised nat

datatype Settlement = Fulfilled MsgType | Rejected

text \<open>A \<open>TrackedPromise\<close> keeps the original value or promise; \<open>getOriginal\<close> returns it.\<close>

datatype TrackedPromise = TrackedPromise Response

fun getOriginal :: "TrackedPromise \<Rightarrow> Response" where
  "getOriginal (TrackedPromise r) = r"

record MessageResponsePair =
  wrapper :: MsgWrapper
  response :: TrackedPromise

section \<open>Connection engine (Connection.ts)\<close>

datatype JsError = Error string | TypeError string

text \<open>The result of a call that may throw: the state is the one at the return or the throw.\<close>

datatype 'a Completion = Returned 'a | Threw JsError 'a

text \<open>
  Callbacks are closures of the caller. The model names them and logs each invocation in
  \<open>fired\<close> with the argument passed; \<open>PongCallback\<close> is the closure of
  \<open>sendPingWaitForPong\<close>. What the closure \<open>UserCallback n\<close> does when the response
  it was registered for arrives, and whether it returns or throws, is given by the owner
  (\<open>onCallback\<close> below). The call that \<open>sendToRoute\<close> makes over the rate limit passes
  the 429 response object instead; the closure handed to it by the repository's client
  (a wrapper around a promise's \<open>resolve\<close>) returns, and the model logs that call.
\<close>

datatype Callback = UserCallback nat | PongCallback

datatype CallbackArg = RouteResponseArg RouteResponse | MsgResponseArg MsgType

datatype StrategyKind = WebSocketStrategy | HttpStrategy

text \<open>
  The fields of the class, followed by the transport (\<open>strategyKind\<close>, \<open>connected\<close> for
  \<open>isConnected()\<close>, \<open>sent\<close> for the envelopes handed to \<open>send\<close>), the clock read by
  \<open>Date.now()\<close>, the log of \<open>onRouteMessage\<close> calls with the promise store, the promises a
  suspended \<open>postAndForget\<close> awaits, and the log of callback invocations.
\<close>

record Connection =
  nextMsgId :: MsgID
  isClient :: bool
  messagesToAck :: "SentMessages list"
  receivedMessages :: "MessageResponsePair list"
  messagesToSendAfterReconnect :: "MsgWrapper list"
  callbacks :: "MsgID \<rightharpoonup> Callback"
  messagesSentInASecond :: int
  header :: "string \<rightharpoonup> Payload"
  strategyKind :: StrategyKind
  connected :: bool
  sent :: "MsgWrapper list"
  now :: int
  routeCalls :: "(MsgID \<times> MsgType) list"
  settled :: "nat \<rightharpoonup> Settlement"
  waiting :: "nat list"
  fired :: "(Callback \<times> CallbackArg) list"

definition RESEND_NOT_ANSWERED_MESSAGES_AFTER_MS :: int where
  "RESEND_NOT_ANSWERED_MESSAGES_AFTER_MS = 3000"

definition SEND_LIMIT_PER_SEC :: int where
  "SEND_LIMIT_PER_SEC = 100"

text \<open>The private constructor: \<open>newClient\<close> passes a fresh secret, \<open>newServer\<close> the empty one.\<close>

definition newConnection :: "StrategyKind \<Rightarrow> ConnectionSecret \<Rightarrow> bool \<Rightarrow> Connection" where
  "newConnection strategy secret client =
     \<lparr>nextMsgId = 0, isClient = client, messagesToAck = [], receivedMessages = [],
      messagesToSendAfterReconnect = [], callbacks = Map.empty, messagesSentInASecond = 0,
      header = [''secret'' \<mapsto> PStr secret], strategyKind = strategy, connected = False,
      sent = [], now = 0, routeCalls = [], settled = Map.empty, waiting = [], fired = []\<rparr>"

definition newServer :: "StrategyKind \<Rightarrow> Connection" where
  "newServer strategy = newConnection strategy [] False"

definition newClient :: "StrategyKind \<Rightarrow> ConnectionSecret \<Rightarrow> Connection" where
  "newClient strategy secret = newConnection strategy secret True"

text \<open>
  \<open>getSecret\<close>: \<open>this.header['secret'] as ConnectionSecret || ''\<close>. A connection secret is a
  string by its declared type; an absent or falsy entry gives the empty string.
\<close>

definition getSecret :: "Connection \<Rightarrow> ConnectionSecret" where
  "getSecret c = (case header c ''secret'' of Some (PStr s) \<Rightarrow> s | _ \<Rightarrow> [])"

definition isPending :: "Connection \<Rightarrow> TrackedPromise \<Rightarrow> bool" where
  "isPending c t = (case getOriginal t of Value m \<Rightarrow> False | Promised p \<Rightarrow> settled c p = None)"

definition isResponse :: "MsgType \<Rightarrow> bool" where
  "isResponse m = (case m of MsgResponse t s d \<Rightarrow> True | _ \<Rightarrow> False)"

definition messageNeedsAck :: "MsgWrapper \<Rightarrow> bool" where
  "messageNeedsAck w = (idW w \<noteq> -1 \<and> \<not> isResponse (msg w))"

text \<open>
  \<open>strategy.send\<close>: the socket strategy throws when the socket is not open; the poll strategy's
  \<open>send\<close> is asynchronous, so its failure is a rejected promise and the call returns.
\<close>

definition strategySend :: "MsgWrapper \<Rightarrow> Connection \<Rightarrow> Connection Completion" where
  "strategySend w c =
     (if connected c then Returned (c\<lparr>sent := sent c @ [w]\<rparr>)
      else (case strategyKind c of
              WebSocketStrategy \<Rightarrow> Threw (Error ''WebSocket is not connected'') c
            | HttpStrategy \<Rightarrow> Returned c))"

text \<open>The loop of \<open>sendWrappedMsg\<close> that looks for the entry of an id, from the last index down.\<close>

fun ackIndexFrom :: "SentMessages list \<Rightarrow> MsgID \<Rightarrow> nat \<Rightarrow> int" where
  "ackIndexFrom xs mid 0 = -1"
| "ackIndexFrom xs mid (Suc i) =
     (if idW (wrappedMsg (xs ! i)) = mid then int i else ackIndexFrom xs mid i)"

text \<open>
  \<open>sendWrappedMsg(wrappedMsg, sentIdx = -1)\<close>. An index that names no entry makes
  \<open>this.messagesToAck[targetIndex].sentAmount++\<close> throw a TypeError.
\<close>

definition sendWrappedMsg :: "MsgWrapper \<Rightarrow> int \<Rightarrow> Connection \<Rightarrow> Connection Completion" where
  "sendWrappedMsg w sentIdx c =
     (if messageNeedsAck w then
        (let targetIndex =
               (if sentIdx = -1 then ackIndexFrom (messagesToAck c) (idW w) (length (messagesToAck c))
                else sentIdx)
         in if targetIndex = -1 then
              strategySend w
                (c\<lparr>messagesToAck :=
                     messagesToAck c @ [\<lparr>wrappedMsg = w, sentAt = now c, sentAmount = 1\<rparr>]\<rparr>)
            else if 0 \<le> targetIndex \<and> targetIndex < int (length (messagesToAck c)) then
              (let e = messagesToAck c ! nat targetIndex
               in strategySend w
                    (c\<lparr>messagesToAck :=
                         (messagesToAck c)[nat targetIndex :=
                            e\<lparr>sentAmount := sentAmount e + 1, sentAt := now c\<rparr>]\<rparr>))
            else Threw (TypeError ''Cannot read properties of undefined'') c)
      else strategySend w c)"

text \<open>What a \<open>try { ... } catch (e) { console.error(...) }\<close> leaves: the state, either way.\<close>

fun caught :: "'a Completion \<Rightarrow> 'a" where
  "caught (Returned c) = c"
| "caught (Threw e c) = c"

text \<open>
  \<open>postAndExpectResponse\<close>: throws for a response body, otherwise allocates the next id and
  sends the envelope or queues it for the reconnect. The result is the id and the state.
\<close>

definition postAndExpectResponse :: "MsgType \<Rightarrow> Connection \<Rightarrow> (MsgID \<times> Connection) Completion" where
  "postAndExpectResponse m c =
     (if isResponse m then
        Threw (Error ''Can't send a response that expects an acknowledge'') (nextMsgId c, c)
      else
        (let i = nextMsgId c;
             c1 = c\<lparr>nextMsgId := nextMsgId c + 1\<rparr>;
             wrappedM = new_MsgWrapper i m
         in if connected c1 then Returned (i, caught (sendWrappedMsg wrappedM (-1) c1))
            else Returned (i, c1\<lparr>messagesToSendAfterReconnect :=
                                   messagesToSendAfterReconnect c1 @ [wrappedM]\<rparr>)))"

text \<open>
  \<open>postAndForget\<close> awaits its argument, wraps it with id -1 and sends it if the transport is
  connected. A pending promise suspends it (the promise joins \<open>waiting\<close>); awaiting a
  rejected promise throws inside the asynchronous function, and nothing is sent.
\<close>

definition sendAndForget :: "MsgType \<Rightarrow> Connection \<Rightarrow> Connection" where
  "sendAndForget m c =
     (if connected c then caught (sendWrappedMsg (new_SendAndForgetMsgWrapper m) (-1) c) else c)"

definition postAndForget :: "Response \<Rightarrow> Connection \<Rightarrow> Connection" where
  "postAndForget msgOrPromise c =
     (case msgOrPromise of
        Value m \<Rightarrow> sendAndForget m c
      | Promised p \<Rightarrow>
          (case settled c p of
             None \<Rightarrow> c\<lparr>waiting := waiting c @ [p]\<rparr>
           | Some (Fulfilled m) \<Rightarrow> sendAndForget m c
           | Some Rejected \<Rightarrow> c))"

text \<open>The loop of \<open>getReceivedPairById\<close>, from the last index down.\<close>

fun receivedPairFrom :: "MessageResponsePair list \<Rightarrow> MsgID \<Rightarrow> nat \<Rightarrow> MessageResponsePair option" where
  "receivedPairFrom xs mid 0 = None"
| "receivedPairFrom xs mid (Suc i) =
     (if idW (wrapper (xs ! i)) = mid then Some (xs ! i) else receivedPairFrom xs mid i)"

definition getReceivedPairById :: "Connection \<Rightarrow> MsgID \<Rightarrow> MessageResponsePair option" where
  "getReceivedPairById c mid = receivedPairFrom (receivedMessages c) mid (length (receivedMessages c))"

text \<open>The loop of \<open>removeMessageToAck\<close>: splice out the last entry of the id, then return.\<close>

fun removeAckFrom :: "SentMessages list \<Rightarrow> MsgID \<Rightarrow> nat \<Rightarrow> SentMessages list" where
  "removeAckFrom xs mid 0 = xs"
| "removeAckFrom xs mid (Suc i) =
     (if idW (wrappedMsg (xs ! i)) = mid then take i xs @ drop (Suc i) xs
      else removeAckFrom xs mid i)"

definition removeMessageToAck :: "MsgID \<Rightarrow> Connection \<Rightarrow> Connection" where
  "removeMessageToAck mid c =
     c\<lparr>messagesToAck := removeAckFrom (messagesToAck c) mid (length (messagesToAck c))\<rparr>"

text \<open>
  The code a connection's owner supplies. The three hooks work on the owner's state
  \<open>'e\<close>, read the connection, and may throw. \<open>onRouteMessage\<close> is asynchronous: the call
  is logged in \<open>routeCalls\<close> and its promise settles in a later event. \<open>onCallback n\<close> is
  the body of the closure \<open>UserCallback n\<close> that the owner passed to \<open>post\<close> or
  \<open>sendToRoute\<close>, run on the response: it works on the owner's state and may throw too.
\<close>

record 'e Hooks =
  onDataSet :: "Connection \<Rightarrow> string \<Rightarrow> Payload \<Rightarrow> 'e \<Rightarrow> JsError + 'e"
  onSubscribeToRoute :: "Connection \<Rightarrow> string \<Rightarrow> 'e \<Rightarrow> JsError + 'e"
  onUnsubscribeFromRoute :: "Connection \<Rightarrow> string \<Rightarrow> 'e \<Rightarrow> JsError + 'e"
  onCallback :: "nat \<Rightarrow> RouteResponse \<Rightarrow> 'e \<Rightarrow> JsError + 'e"

text \<open>
  The hooks a connection is created with: \<open>() => { }\<close>. With them every callback is a
  closure that returns.
\<close>

definition defaultHooks :: "'e Hooks" where
  "defaultHooks =
     \<lparr>onDataSet = (\<lambda>c k v env. Inr env),
      onSubscribeToRoute = (\<lambda>c route env. Inr env),
      onUnsubscribeFromRoute = (\<lambda>c route env. Inr env),
      onCallback = (\<lambda>n resp env. Inr env)\<rparr>"

text \<open>
  \<open>callback(response)\<close>. The closure of \<open>sendPingWaitForPong\<close> reads \<open>response.error\<close> and
  sets its flag: it returns.
\<close>

definition invokeCallback :: "'e Hooks \<Rightarrow> Callback \<Rightarrow> RouteResponse \<Rightarrow> 'e \<Rightarrow> JsError + 'e" where
  "invokeCallback h callback resp env =
     (case callback of
        UserCallback n \<Rightarrow> onCallback h n resp env
      | PongCallback \<Rightarrow> Inr env)"

text \<open>
  \<open>handleResponse\<close>: a 202 returns at once; any other status is translated and the callback
  of the target id (if any) is called. When the call returns, the callback is deleted and
  the entry of the target id leaves \<open>messagesToAck\<close>; without a callback the entry leaves
  all the same. When the call throws, the exception leaves \<open>handleResponse\<close> there, before
  \<open>this.callbacks.delete(msgId)\<close> and \<open>this.removeMessageToAck(msgId)\<close>.
\<close>

definition translateResponse :: "int \<Rightarrow> Payload \<Rightarrow> RouteResponse" where
  "translateResponse status d =
     (if status = 200 then new_RouteResponse d else new_RouteResponseError d)"

definition handleResponse ::
  "'e Hooks \<Rightarrow> MsgType \<Rightarrow> Connection \<times> 'e \<Rightarrow> (Connection \<times> 'e) Completion" where
  "handleResponse h m s =
     (case m of
        MsgResponse msgId status d \<Rightarrow>
          (if status = 202 then Returned s
           else
             (let resp = translateResponse status d
              in case callbacks (fst s) msgId of
                   Some callback \<Rightarrow>
                     (let c1 = (fst s)\<lparr>fired := fired (fst s) @ [(callback, RouteResponseArg resp)]\<rparr>
                      in case invokeCallback h callback resp (snd s) of
                           Inl e \<Rightarrow> Threw e (c1, snd s)
                         | Inr env1 \<Rightarrow>
                             Returned
                               (removeMessageToAck msgId
                                  (c1\<lparr>callbacks := (callbacks c1)(msgId := None)\<rparr>),
                                env1))
                 | None \<Rightarrow> Returned (removeMessageToAck msgId (fst s), snd s)))
      | _ \<Rightarrow> Returned s)"

text \<open>
  The socket-based variant of the class has no strategy; its \<open>setSocket\<close> sends the client's
  \<open>set secret\<close> and registers this closure for the response. The closure reads
  \<open>response.data as [string, Payload]\<close>, so it is modelled on the pair that the cast declares:
  without an error it assigns \<open>header[data[0]] = data[1]\<close>, with an error it resets the
  secret to the empty string.
\<close>

definition handshakeCallback :: "Payload \<Rightarrow> string \<times> Payload \<Rightarrow> Connection \<Rightarrow> Connection" where
  "handshakeCallback err d c =
     (if \<not> truthy err then c\<lparr>header := (header c)(fst d \<mapsto> snd d)\<rparr>
      else c\<lparr>header := (header c)(''secret'' \<mapsto> PStr [])\<rparr>)"

text \<open>
  The data of a response is whatever the peer sent. The closure reads \<open>data[0]\<close> whenever
  the response carries no error, and on \<open>null\<close> or \<open>undefined\<close> that read throws a TypeError
  before anything is assigned. \<open>pairReader\<close> is the body of a caller's closure that reads the
  pair in this way, and \<open>pairReaderHooks\<close> an owner whose closures do.
\<close>

definition pairReader :: "RouteResponse \<Rightarrow> 'e \<Rightarrow> JsError + 'e" where
  "pairReader resp env =
     (if truthy (rerror resp) then Inr env
      else (case rdata resp of
              PNull \<Rightarrow> Inl (TypeError ''Cannot read properties of null'')
            | PUndefined \<Rightarrow> Inl (TypeError ''Cannot read properties of undefined'')
            | _ \<Rightarrow> Inr env))"

definition pairReaderHooks :: "'e Hooks" where
  "pairReaderHooks = defaultHooks\<lparr>onCallback := (\<lambda>n. pairReader)\<rparr>"

definition handleDataSet ::
  "'e Hooks \<Rightarrow> MsgID \<Rightarrow> string \<Rightarrow> Payload \<Rightarrow> Connection \<times> 'e \<Rightarrow> (Response option \<times> Connection \<times> 'e) Completion" where
  "handleDataSet h msgId key v s =
     (let c1 = (fst s)\<lparr>header := (header (fst s))(key \<mapsto> v)\<rparr>
      in case onDataSet h c1 key v (snd s) of
           Inl e \<Rightarrow> Threw e (None, c1, snd s)
         | Inr env1 \<Rightarrow> Returned (Some (Value (new_MsgResponseOK msgId (PArr [PStr key, v]))), c1, env1))"

definition handleRouteSubscription ::
  "'e Hooks \<Rightarrow> MsgID \<Rightarrow> string \<Rightarrow> Connection \<times> 'e \<Rightarrow> (Response option \<times> Connection \<times> 'e) Completion" where
  "handleRouteSubscription h msgId route s =
     (case onSubscribeToRoute h (fst s) route (snd s) of
        Inl e \<Rightarrow> Threw e (None, fst s, snd s)
      | Inr env1 \<Rightarrow> Returned (Some (Value (new_MsgResponseOK msgId PUndefined)), fst s, env1))"

definition handleRouteUnsubscription ::
  "'e Hooks \<Rightarrow> MsgID \<Rightarrow> string \<Rightarrow> Connection \<times> 'e \<Rightarrow> (Response option \<times> Connection \<times> 'e) Completion" where
  "handleRouteUnsubscription h msgId route s =
     (case onUnsubscribeFromRoute h (fst s) route (snd s) of
        Inl e \<Rightarrow> Threw e (None, fst s, snd s)
      | Inr env1 \<Rightarrow> Returned (Some (Value (new_MsgResponseOK msgId PUndefined)), fst s, env1))"

text \<open>
  \<open>handleRouteMessage\<close> is \<open>async\<close>: it calls \<open>onRouteMessage\<close> and returns its own promise at
  once. \<open>routeReply\<close> is the rest of its body, run when the handler's promise resolves with
  \<open>resp\<close> (\<open>None\<close> for a handler that resolves with nothing).
\<close>

definition handleRouteMessage :: "MsgID \<Rightarrow> MsgType \<Rightarrow> Connection \<Rightarrow> Response \<times> Connection" where
  "handleRouteMessage msgId m c =
     (Promised (length (routeCalls c)), c\<lparr>routeCalls := routeCalls c @ [(msgId, m)]\<rparr>)"

definition routeReply :: "MsgID \<Rightarrow> RouteResponse option \<Rightarrow> MsgType" where
  "routeReply msgId resp =
     (case resp of
        None \<Rightarrow> new_MsgResponseOK msgId PUndefined
      | Some r \<Rightarrow>
          (if \<not> truthy (rerror r) then new_MsgResponseOK msgId (rdata r)
           else new_MsgResponseWithCode msgId 400 (rerror r)))"

text \<open>The \<open>switch (msg.type)\<close> of \<open>handleMessage\<close>, with the value it leaves in \<open>response\<close>.\<close>

definition dispatch ::
  "'e Hooks \<Rightarrow> MsgWrapper \<Rightarrow> Connection \<times> 'e \<Rightarrow> (Response option \<times> Connection \<times> 'e) Completion" where
  "dispatch h w s =
     (case msg w of
        MsgDataSet key v \<Rightarrow> handleDataSet h (idW w) key v s
      | MsgPing \<Rightarrow> Returned (Some (Value (new_MsgResponseOK (idW w) (PStr ''pong''))), fst s, snd s)
      | MsgResponse t st d \<Rightarrow>
          (case handleResponse h (msg w) s of
             Returned s1 \<Rightarrow> Returned (None, fst s1, snd s1)
           | Threw e s1 \<Rightarrow> Threw e (None, fst s1, snd s1))
      | MsgSubscribeToRoute route \<Rightarrow> handleRouteSubscription h (idW w) route s
      | MsgUnsubscribeFromRoute route \<Rightarrow> handleRouteUnsubscription h (idW w) route s
      | MsgRoute route verb d headers \<Rightarrow>
          (let rc = handleRouteMessage (idW w) (msg w) (fst s)
           in Returned (Some (fst rc), snd rc, snd s))
      | MsgOther t \<Rightarrow> Threw (Error ''Unknown message type'') (None, fst s, snd s))"

definition rememberReceived :: "MsgWrapper \<Rightarrow> Response \<Rightarrow> Connection \<Rightarrow> Connection" where
  "rememberReceived w r c =
     c\<lparr>receivedMessages := receivedMessages c @ [\<lparr>wrapper = w, response = TrackedPromise r\<rparr>]\<rparr>"

definition handleMessage :: "'e Hooks \<Rightarrow> MsgWrapper \<Rightarrow> Connection \<times> 'e \<Rightarrow> Connection \<times> 'e" where
  "handleMessage h w s =
     (let needsResponse = (idW w \<noteq> -1);
          alreadyReceived = (if needsResponse then getReceivedPairById (fst s) (idW w) else None)
      in case alreadyReceived of
           Some pair \<Rightarrow>
             (if isPending (fst s) (response pair) then
                (postAndForget
                   (Value (new_MsgResponseWithCode (idW w) 202 (PStr ''Message is being processed'')))
                   (fst s), snd s)
              else (postAndForget (getOriginal (response pair)) (fst s), snd s))
         | None \<Rightarrow>
             (case dispatch h w s of
                Returned (resp, c1, env1) \<Rightarrow>
                  (if needsResponse then
                     (let r = (case resp of
                                 None \<Rightarrow> Value (new_MsgGenericError (idW w) (PStr ''No response''))
                               | Some r0 \<Rightarrow> r0)
                      in (rememberReceived w r (postAndForget r c1), env1))
                   else (c1, env1))
              | Threw e (resp, c1, env1) \<Rightarrow>
                  (if needsResponse then
                     (rememberReceived w
                        (Value (new_MsgGenericError (idW w) (PStr ''No response'')))
                        (postAndForget
                           (Value (new_MsgGenericError (idW w) (PStr ''Error handling message'')))
                           c1),
                      env1)
                   else (c1, env1))))"

text \<open>\<open>post(msg, callback?)\<close>.\<close>

definition post :: "MsgType \<Rightarrow> Callback option \<Rightarrow> Connection \<Rightarrow> Connection Completion" where
  "post m callback c =
     (case postAndExpectResponse m c of
        Threw e (msgId, c1) \<Rightarrow> Threw e c1
      | Returned (msgId, c1) \<Rightarrow>
          (case callback of
             Some cb \<Rightarrow> Returned (c1\<lparr>callbacks := (callbacks c1)(msgId \<mapsto> cb)\<rparr>)
           | None \<Rightarrow> Returned c1))"

text \<open>
  \<open>sendToRoute(route, verb, payload, headers?, callback?)\<close>. Over the limit the callback is
  called at once with the 429 response object; the body of the method then runs as always.
\<close>

definition rateLimitResponse :: MsgType where
  "rateLimitResponse =
     new_MsgResponseWithCode (-1) 429 (PStr ''Rate limit of 100 messages per second exceeded'')"

definition sendToRoute ::
  "string \<Rightarrow> string \<Rightarrow> Payload \<Rightarrow> (string \<times> string) list option \<Rightarrow> Callback option \<Rightarrow>
   Connection \<Rightarrow> Connection Completion" where
  "sendToRoute route verb payload headers callback c =
     (let c0 = (if messagesSentInASecond c > SEND_LIMIT_PER_SEC then
                  (case callback of
                     Some cb \<Rightarrow> c\<lparr>fired := fired c @ [(cb, MsgResponseArg rateLimitResponse)]\<rparr>
                   | None \<Rightarrow> c)
                else c);
          m = new_MsgRoute route verb (if truthy payload then payload else PStr []) headers
      in case postAndExpectResponse m c0 of
           Threw e (msgId, c1) \<Rightarrow> Threw e c1
         | Returned (msgId, c1) \<Rightarrow>
             (let c2 = c1\<lparr>messagesSentInASecond := messagesSentInASecond c1 + 1\<rparr>
              in case callback of
                   Some cb \<Rightarrow> Returned (c2\<lparr>callbacks := (callbacks c2)(msgId \<mapsto> cb)\<rparr>)
                 | None \<Rightarrow> Returned c2))"

definition sendToRouteAndForget ::
  "string \<Rightarrow> string \<Rightarrow> Payload \<Rightarrow> (string \<times> string) list option \<Rightarrow> Connection \<Rightarrow> Connection" where
  "sendToRouteAndForget route verb payload headers c =
     postAndForget (Value (new_MsgRoute route verb payload headers)) c"

text \<open>\<open>sendMessagesFromLaterList\<close>: send each queued envelope, then empty the queue.\<close>

fun sendEach :: "MsgWrapper list \<Rightarrow> Connection \<Rightarrow> Connection Completion" where
  "sendEach [] c = Returned c"
| "sendEach (w # ws) c =
     (case sendWrappedMsg w (-1) c of
        Returned c1 \<Rightarrow> sendEach ws c1
      | Threw e c1 \<Rightarrow> Threw e c1)"

definition sendMessagesFromLaterList :: "Connection \<Rightarrow> Connection Completion" where
  "sendMessagesFromLaterList c =
     (case sendEach (messagesToSendAfterReconnect c) c of
        Returned c1 \<Rightarrow> Returned (c1\<lparr>messagesToSendAfterReconnect := []\<rparr>)
      | Threw e c1 \<Rightarrow> Threw e c1)"

text \<open>The two timers of the constructor: the re-send scan (every 10 ms) and the rate window.\<close>

function resendFrom :: "nat \<Rightarrow> Connection \<Rightarrow> Connection Completion" where
  "resendFrom i c =
     (if i < length (messagesToAck c) then
        (let m = messagesToAck c ! i
         in if now c - sentAt m > RESEND_NOT_ANSWERED_MESSAGES_AFTER_MS then
              (case sendWrappedMsg (wrappedMsg m) (int i) c of
                 Returned c1 \<Rightarrow> resendFrom (Suc i) c1
               | Threw e c1 \<Rightarrow> Threw e c1)
            else resendFrom (Suc i) c)
      else Returned c)"
  by pat_completeness auto
termination
proof (relation "measure (\<lambda>(i, c). length (messagesToAck c) - i)")
  show "wf (measure (\<lambda>(i, c). length (messagesToAck c) - i))" by simp
next
  fix i :: nat and c c1 :: Connection and m :: SentMessages
  assume inside: "i < length (messagesToAck c)"
    and returned: "sendWrappedMsg (wrappedMsg m) (int i) c = Returned c1"
  from returned have "length (messagesToAck c1) = length (messagesToAck c)"
    by (auto simp: sendWrappedMsg_def strategySend_def Let_def
             split: if_splits StrategyKind.splits)
  with inside show "((Suc i, c1), (i, c)) \<in> measure (\<lambda>(i, c). length (messagesToAck c) - i)"
    by simp
next
  fix i :: nat and c :: Connection
  assume "i < length (messagesToAck c)"
  then show "((Suc i, c), (i, c)) \<in> measure (\<lambda>(i, c). length (messagesToAck c) - i)"
    by simp
qed

declare resendFrom.simps [simp del]

definition resendTick :: "Connection \<Rightarrow> Connection Completion" where
  "resendTick c = (if \<not> connected c then Returned c else resendFrom 0 c)"

definition rateWindowTick :: "Connection \<Rightarrow> Connection" where
  "rateWindowTick c = c\<lparr>messagesSentInASecond := 0\<rparr>"

text \<open>
  \<open>sendPingWaitForPong\<close> up to its wait: post the ping and register the closure that sets
  \<open>pongReceived\<close>. \<open>pingPong\<close> calls it only while the transport is connected.
\<close>

definition sendPing :: "Connection \<Rightarrow> Connection" where
  "sendPing c =
     (if \<not> connected c then c
      else (case postAndExpectResponse pingMsg c of
              Returned (msgId, c1) \<Rightarrow> c1\<lparr>callbacks := (callbacks c1)(msgId \<mapsto> PongCallback)\<rparr>
            | Threw e (msgId, c1) \<Rightarrow> c1))"

text \<open>
  The promise of the \<open>p\<close>-th \<open>onRouteMessage\<close> call settles: the handler resolved with
  \<open>resp\<close> (\<open>Some resp\<close>) or rejected (\<open>None\<close>). \<open>handleRouteMessage\<close> finishes with
  \<open>routeReply\<close>, and every \<open>postAndForget\<close> suspended on the promise resumes.
\<close>

definition settleRouteCall :: "nat \<Rightarrow> RouteResponse option option \<Rightarrow> Connection \<Rightarrow> Connection" where
  "settleRouteCall p outcome c =
     (if p < length (routeCalls c) \<and> settled c p = None then
        (let st = (case outcome of
                     None \<Rightarrow> Rejected
                   | Some resp \<Rightarrow> Fulfilled (routeReply (fst (routeCalls c ! p)) resp));
             c1 = c\<lparr>settled := (settled c)(p \<mapsto> st), waiting := removeAll p (waiting c)\<rparr>
         in case st of
              Fulfilled m \<Rightarrow> ((sendAndForget m) ^^ (count_list (waiting c) p)) c1
            | Rejected \<Rightarrow> c1)
      else c)"

text \<open>
  Everything that can happen to a connection after its construction: the public calls, an
  envelope delivered by the transport, the timers, the ping loop, a handler's promise
  settling, the clock advancing, and the transport opening, closing or being replaced
  (\<open>setStrategy\<close> is \<open>EvConnected False\<close>, \<open>EvStrategy\<close>, \<open>EvConnected True\<close>, \<open>EvFlush\<close>).
\<close>

datatype Event =
    EvPost MsgType "Callback option"
  | EvSendToRoute string string Payload "(string \<times> string) list option" "Callback option"
  | EvSendToRouteAndForget string string Payload "(string \<times> string) list option"
  | EvReceive MsgWrapper
  | EvResendTick
  | EvRateWindowTick
  | EvPing
  | EvSettle nat "RouteResponse option option"
  | EvClock int
  | EvConnected bool
  | EvStrategy StrategyKind
  | EvFlush

fun step :: "'e Hooks \<Rightarrow> Event \<Rightarrow> Connection \<times> 'e \<Rightarrow> Connection \<times> 'e" where
  "step h (EvPost m cb) s = (caught (post m cb (fst s)), snd s)"
| "step h (EvSendToRoute route verb payload headers cb) s =
     (caught (sendToRoute route verb payload headers cb (fst s)), snd s)"
| "step h (EvSendToRouteAndForget route verb payload headers) s =
     (sendToRouteAndForget route verb payload headers (fst s), snd s)"
| "step h (EvReceive w) s = handleMessage h w s"
| "step h EvResendTick s = (caught (resendTick (fst s)), snd s)"
| "step h EvRateWindowTick s = (rateWindowTick (fst s), snd s)"
| "step h EvPing s = (sendPing (fst s), snd s)"
| "step h (EvSettle p outcome) s = (settleRouteCall p outcome (fst s), snd s)"
| "step h (EvClock t) s = ((fst s)\<lparr>now := t\<rparr>, snd s)"
| "step h (EvConnected b) s = ((fst s)\<lparr>connected := b\<rparr>, snd s)"
| "step h (EvStrategy k) s = ((fst s)\<lparr>strategyKind := k, connected := False\<rparr>, snd s)"
| "step h EvFlush s = (caught (sendMessagesFromLaterList (fst s)), snd s)"

fun run :: "'e Hooks \<Rightarrow> Event list \<Rightarrow> Connection \<times> 'e \<Rightarrow> Connection \<times> 'e" where
  "run h [] s = s"
| "run h (ev # evs) s = run h evs (step h ev s)"

section \<open>Router (Router.ts)\<close>

text \<open>
  The router's directory holds references to connection objects; a reference is a number.
  A listener keeps the secret of its connection and the parameters captured when it
  subscribed.
\<close>

type_synonym ConnRef = nat

record RouteListener =
  conn :: ConnectionSecret
  params :: "string list"

text \<open>What a broadcast validator returns: a boolean, or a promise of one.\<close>

datatype Validation = Verdict bool | PendingVerdict bool

text \<open>
  An outbound layer. The path compiler (\<open>helpers/pathsToRegexp.ts\<close>) is not part of the
  sources at hand, so a layer carries its compiled matcher as a function: \<open>match path\<close> is
  \<open>None\<close> when the path is not accepted and otherwise \<open>Object.values(match.params)\<close>, the
  captured parameters in positional order. \<open>regexp\<close> is the printed regular expression.
  The validator is called with the connection found in the directory (\<open>None\<close> for
  \<open>undefined\<close>) and the captured parameters.
\<close>

record OutRouteLayer =
  idL :: int
  route :: string
  regexp :: string
  match :: "string \<Rightarrow> string list option"
  keys :: "string list"
  listeners :: "RouteListener list"
  validate :: "ConnRef option \<Rightarrow> string list \<Rightarrow> Validation"

text \<open>The router's state: the id counter, the connection directory and the outbound layers.\<close>

record Router =
  nextRouteSubID :: int
  connections :: "ConnectionSecret \<rightharpoonup> ConnRef"
  outRoutes :: "OutRouteLayer list"

definition newRouter :: Router where
  "newRouter = \<lparr>nextRouteSubID = 0, connections = Map.empty, outRoutes = []\<rparr>"

text \<open>
  \<open>setOutRoute\<close>, with the path compiler as a parameter: \<open>pathToRegexp route\<close> gives the
  printed regular expression, the key names and the matcher.
\<close>

definition setOutRoute ::
  "(string \<Rightarrow> string \<times> string list \<times> (string \<Rightarrow> string list option)) \<Rightarrow> string \<Rightarrow>
   (ConnRef option \<Rightarrow> string list \<Rightarrow> Validation) \<Rightarrow> Router \<Rightarrow> int \<times> Router" where
  "setOutRoute pathToRegexp pattern validator r =
     (let compiled = pathToRegexp pattern
      in case find (\<lambda>l. regexp l = fst compiled) (outRoutes r) of
           Some targetRoute \<Rightarrow> (idL targetRoute, r)
         | None \<Rightarrow>
             (nextRouteSubID r,
              r\<lparr>nextRouteSubID := nextRouteSubID r + 1,
                outRoutes := outRoutes r @
                  [\<lparr>idL = nextRouteSubID r, route = pattern, regexp = fst compiled,
                    match = snd (snd compiled), keys = fst (snd compiled), listeners = [],
                    validate = validator\<rparr>]\<rparr>))"

definition subscribeConnectionToRoute :: "string \<Rightarrow> ConnectionSecret \<Rightarrow> Router \<Rightarrow> JsError + Router" where
  "subscribeConnectionToRoute path connSecret r =
     (if connections r connSecret = None then
        Inl (Error (''Connection with id '' @ connSecret @ '' does not exist''))
      else
        Inr (r\<lparr>outRoutes :=
                 map (\<lambda>l. case match l path of
                             Some ps \<Rightarrow> l\<lparr>listeners := listeners l @ [\<lparr>conn = connSecret, params = ps\<rparr>]\<rparr>
                           | None \<Rightarrow> l)
                     (outRoutes r)\<rparr>))"

definition unsubsctibeConnectionFromRoute :: "string \<Rightarrow> ConnectionSecret \<Rightarrow> Router \<Rightarrow> JsError + Router" where
  "unsubsctibeConnectionFromRoute path connSecret r =
     (if connections r connSecret = None then
        Inl (Error (''Connection with id '' @ connSecret @ '' does not exist''))
      else
        Inr (r\<lparr>outRoutes :=
                 map (\<lambda>l. case match l path of
                             Some ps \<Rightarrow> l\<lparr>listeners := filter (\<lambda>x. conn x \<noteq> connSecret) (listeners l)\<rparr>
                           | None \<Rightarrow> l)
                     (outRoutes r)\<rparr>))"

text \<open>
  \<open>removeConnection\<close>: the entry leaves the directory; the loop over the layers evaluates
  \<open>route.listeners.filter(...)\<close> and drops the result.
\<close>

definition removeConnection :: "ConnectionSecret \<Rightarrow> Router \<Rightarrow> Router" where
  "removeConnection connSecret r =
     (let r1 = r\<lparr>connections := (connections r)(connSecret := None)\<rparr>;
          dropped = map (\<lambda>l. filter (\<lambda>x. conn x \<noteq> connSecret) (listeners l)) (outRoutes r1)
      in r1)"

text \<open>
  The comparison loop of \<open>internalBroadcast\<close>: it runs over the listener's parameters and
  fails at the first index where the broadcast's parameter differs or is missing.
\<close>

fun paramsMatch :: "string list \<Rightarrow> string list \<Rightarrow> bool" where
  "paramsMatch [] paramsArr = True"
| "paramsMatch (x # xs) [] = False"
| "paramsMatch (x # xs) (y # ys) = (if x \<noteq> y then False else paramsMatch xs ys)"

text \<open>
  A broadcast calls \<open>sendToRoute(route, verb, payload)\<close> on connections: at once after a
  boolean verdict, or when the validator's promise has resolved.
\<close>

datatype Delivery = Now ConnRef | AfterValidation ConnRef

fun target :: "Delivery \<Rightarrow> ConnRef" where
  "target (Now cr) = cr"
| "target (AfterValidation cr) = cr"

text \<open>
  The loop over the listeners of a layer that accepted the path. \<open>undefined.sendToRoute\<close>
  throws a TypeError: at once after a boolean verdict, which ends the broadcast; inside the
  promise's continuation otherwise, where it is lost.
\<close>

fun notifyListeners ::
  "Router \<Rightarrow> ConnRef option \<Rightarrow> OutRouteLayer \<Rightarrow> string list \<Rightarrow> RouteListener list \<Rightarrow>
   Delivery list \<Rightarrow> Delivery list Completion" where
  "notifyListeners r exceptConn l paramsArr [] acc = Returned acc"
| "notifyListeners r exceptConn l paramsArr (x # xs) acc =
     (let c = connections r (conn x)
      in if c \<noteq> exceptConn \<and> paramsMatch (params x) paramsArr then
           (case validate l c paramsArr of
              PendingVerdict isValid \<Rightarrow>
                (case c of
                   Some cr \<Rightarrow>
                     notifyListeners r exceptConn l paramsArr xs
                       (if isValid then acc @ [AfterValidation cr] else acc)
                 | None \<Rightarrow> notifyListeners r exceptConn l paramsArr xs acc)
            | Verdict isValid \<Rightarrow>
                (if isValid then
                   (case c of
                      Some cr \<Rightarrow> notifyListeners r exceptConn l paramsArr xs (acc @ [Now cr])
                    | None \<Rightarrow> Threw (TypeError ''Cannot read properties of undefined'') acc)
                 else notifyListeners r exceptConn l paramsArr xs acc))
         else notifyListeners r exceptConn l paramsArr xs acc)"

fun broadcastLayers ::
  "Router \<Rightarrow> ConnRef option \<Rightarrow> string \<Rightarrow> OutRouteLayer list \<Rightarrow> Delivery list \<Rightarrow>
   Delivery list Completion" where
  "broadcastLayers r exceptConn path [] acc = Returned acc"
| "broadcastLayers r exceptConn path (l # ls) acc =
     (case match l path of
        Some paramsArr \<Rightarrow>
          (case notifyListeners r exceptConn l paramsArr (listeners l) acc of
             Returned acc1 \<Rightarrow> broadcastLayers r exceptConn path ls acc1
           | Threw e acc1 \<Rightarrow> Threw e acc1)
      | None \<Rightarrow> broadcastLayers r exceptConn path ls acc)"

text \<open>
  \<open>internalBroadcast(route, action, payload, exceptConn?)\<close>: the connections on which
  \<open>sendToRoute(route, action, payload)\<close> is called, in the order of the loops.
\<close>

definition internalBroadcast ::
  "string \<Rightarrow> string \<Rightarrow> Payload \<Rightarrow> ConnRef option \<Rightarrow> Router \<Rightarrow> Delivery list Completion" where
  "internalBroadcast path action payload exceptConn r =
     broadcastLayers r exceptConn path (outRoutes r) []"

definition broadcastPost :: "string \<Rightarrow> Payload \<Rightarrow> ConnRef option \<Rightarrow> Router \<Rightarrow> Delivery list Completion" where
  "broadcastPost path payload exceptConn r = internalBroadcast path ''POST'' payload exceptConn r"

definition broadcastDeletion :: "string \<Rightarrow> Payload \<Rightarrow> ConnRef option \<Rightarrow> Router \<Rightarrow> Delivery list Completion" where
  "broadcastDeletion path payload exceptConn r = internalBroadcast path ''DELETE'' payload exceptConn r"

definition broadcastUpdate :: "string \<Rightarrow> Payload \<Rightarrow> ConnRef option \<Rightarrow> Router \<Rightarrow> Delivery list Completion" where
  "broadcastUpdate path payload exceptConn r = internalBroadcast path ''UPDATE'' payload exceptConn r"

text \<open>
  The hooks \<open>addSocket\<close> installs on the server connection \<open>cr\<close> it creates: a \<open>set\<close> of
  the key \<open>secret\<close> enters the connection in the directory under the value sent (a string by
  the declared type), and \<open>on\<close> and \<open>off\<close> reach the router with the connection's secret.
  The router passes no callback to \<open>sendToRoute\<close>.
\<close>

definition routerHooks :: "ConnRef \<Rightarrow> Router Hooks" where
  "routerHooks cr =
     \<lparr>onDataSet = (\<lambda>c key v r.
        if key = ''secret'' then
          Inr (r\<lparr>connections := (connections r)((case v of PStr s \<Rightarrow> s | _ \<Rightarrow> []) \<mapsto> cr)\<rparr>)
        else Inr r),
      onSubscribeToRoute = (\<lambda>c path r. subscribeConnectionToRoute path (getSecret c) r),
      onUnsubscribeFromRoute = (\<lambda>c path r. unsubsctibeConnectionFromRoute path (getSecret c) r),
      onCallback = (\<lambda>n resp r. Inr r)\<rparr>"

text \<open>The router's \<open>conn.onClose\<close> closure.\<close>

definition onClose :: "Connection \<Rightarrow> Router \<Rightarrow> Router" where
  "onClose c r = removeConnection (getSecret c) r"

section \<open>Notions used in the statements\<close>

text \<open>The ids of the entries of \<open>messagesToAck\<close>, in order.\<close>

abbreviation ackIds :: "Connection \<Rightarrow> MsgID list" where
  "ackIds c \<equiv> map (\<lambda>e. idW (wrappedMsg e)) (messagesToAck c)"

text \<open>
  What \<open>sendWrappedMsg\<close> leaves in \<open>messagesToAck\<close>, as a function of the list and the
  clock alone.
\<close>

definition acksAfterSend :: "MsgWrapper \<Rightarrow> int \<Rightarrow> int \<Rightarrow> SentMessages list \<Rightarrow> SentMessages list" where
  "acksAfterSend w sentIdx t acks =
     (if messageNeedsAck w then
        (let targetIndex =
               (if sentIdx = -1 then ackIndexFrom acks (idW w) (length acks) else sentIdx)
         in if targetIndex = -1 then acks @ [\<lparr>wrappedMsg = w, sentAt = t, sentAmount = 1\<rparr>]
            else if 0 \<le> targetIndex \<and> targetIndex < int (length acks) then
              acks[nat targetIndex :=
                     (acks ! nat targetIndex)
                       \<lparr>sentAmount := sentAmount (acks ! nat targetIndex) + 1, sentAt := t\<rparr>]
            else acks)
      else acks)"

text \<open>Whether a call ended by throwing.\<close>

fun threw :: "'a Completion \<Rightarrow> bool" where
  "threw (Returned x) = False"
| "threw (Threw e x) = True"

text \<open>An event that delivers a \<open>set\<close> message for the key \<open>secret\<close>.\<close>

fun setsSecret :: "Event \<Rightarrow> bool" where
  "setsSecret (EvReceive w) = (case msg w of MsgDataSet key v \<Rightarrow> key = ''secret'' | _ \<Rightarrow> False)"
| "setsSecret ev = False"

text \<open>A verdict that lets the broadcast through, at once or when the promise resolves.\<close>

fun accepted :: "Validation \<Rightarrow> bool" where
  "accepted (Verdict b) = b"
| "accepted (PendingVerdict b) = b"

text \<open>
  The connections a layer's loop should reach: those of the listeners whose directory
  entry is not the excepted connection, whose parameters pass the comparison loop and whose
  verdict is accepted.
\<close>

definition receivers ::
  "Router \<Rightarrow> ConnRef option \<Rightarrow> OutRouteLayer \<Rightarrow> string list \<Rightarrow> RouteListener list \<Rightarrow> ConnRef set" where
  "receivers r ex l ps xs =
     {cr. \<exists>x \<in> set xs. connections r (conn x) = Some cr \<and> Some cr \<noteq> ex \<and>
            paramsMatch (params x) ps \<and> accepted (validate l (Some cr) ps)}"

text \<open>
  Modelled from the spec: the matcher of the pattern \<open>/t/:id\<close> of the broadcast scenario, as
  the path compiler (\<open>helpers/pathsToRegexp.ts\<close>, not among the sources) would return it:
  it accepts \<open>/t/x\<close> for a non-empty segment \<open>x\<close> and captures \<open>x\<close>. \<open>topicLayer\<close> is the
  outbound layer \<open>onValidateBroadcast("/t/:id", () => true)\<close> creates, with given listeners.
\<close>

definition topicMatch :: "string \<Rightarrow> string list option" where
  "topicMatch p =
     (if take 3 p = ''/t/'' \<and> drop 3 p \<noteq> [] \<and> CHR ''/'' \<notin> set (drop 3 p)
      then Some [drop 3 p] else None)"

definition topicLayer :: "RouteListener list \<Rightarrow> OutRouteLayer" where
  "topicLayer ls =
     \<lparr>idL = 0, route = ''/t/:id'', regexp = ''/t/:id'', match = topicMatch, keys = [''id''],
      listeners = ls, validate = (\<lambda>c ps. Verdict True)\<rparr>"

section \<open>The router: directory and listeners\<close>

lemma removeConnection_outRoutes: "outRoutes (removeConnection s r) = outRoutes r"
  by (simp add: removeConnection_def Let_def)

lemma removeConnection_connections:
  "connections (removeConnection s r) = (connections r)(s := None)"
  by (simp add: removeConnection_def Let_def)


lemma topicMatch_1: "topicMatch ''/t/1'' = Some [''1'']"
  by (simp add: topicMatch_def)

lemma paramsMatch_take: "paramsMatch xs ys \<longleftrightarrow> take (length xs) ys = xs"
  by (induction xs ys rule: paramsMatch.induct) auto

lemma paramsMatch_same_length: "length xs = length ys \<Longrightarrow> paramsMatch xs ys \<longleftrightarrow> xs = ys"
  by (auto simp: paramsMatch_take)

lemma receivers_Nil: "receivers r ex l ps [] = {}"
  by (simp add: receivers_def)

lemma receivers_Cons:
  "receivers r ex l ps (x # xs) =
     (case connections r (conn x) of
        Some cr \<Rightarrow> if Some cr \<noteq> ex \<and> paramsMatch (params x) ps \<and> accepted (validate l (Some cr) ps)
                   then insert cr (receivers r ex l ps xs) else receivers r ex l ps xs
      | None \<Rightarrow> receivers r ex l ps xs)"
  by (auto simp: receivers_def split: option.splits)

lemma notifyListeners_targets:
  assumes "\<forall>x \<in> set xs. connections r (conn x) \<noteq> None"
  shows "\<exists>ds. notifyListeners r ex l ps xs acc = Returned (acc @ ds) \<and>
              set (map target ds) = receivers r ex l ps xs"
  using assms
proof (induction xs arbitrary: acc)
  case Nil
  then show ?case by (simp add: receivers_Nil)
next
  case (Cons x xs)
  from Cons.prems obtain cr where cr: "connections r (conn x) = Some cr" by auto
  from Cons.prems have rest: "\<forall>x \<in> set xs. connections r (conn x) \<noteq> None" by simp
  show ?case
  proof (cases "Some cr \<noteq> ex \<and> paramsMatch (params x) ps \<and> accepted (validate l (Some cr) ps)")
    case True
    have "\<exists>d. target d = cr \<and>
            notifyListeners r ex l ps (x # xs) acc = notifyListeners r ex l ps xs (acc @ [d])"
    proof (cases "validate l (Some cr) ps")
      case (Verdict b)
      with True cr show ?thesis by (intro exI [of _ "Now cr"]) (simp add: Let_def)
    next
      case (PendingVerdict b)
      with True cr show ?thesis by (intro exI [of _ "AfterValidation cr"]) (simp add: Let_def)
    qed
    then obtain d where d: "target d = cr"
      and step: "notifyListeners r ex l ps (x # xs) acc = notifyListeners r ex l ps xs (acc @ [d])"
      by blast
    from Cons.IH [OF rest, of "acc @ [d]"] obtain ds
      where ih: "notifyListeners r ex l ps xs (acc @ [d]) = Returned ((acc @ [d]) @ ds)"
        "set (map target ds) = receivers r ex l ps xs" by blast
    have here: "receivers r ex l ps (x # xs) = insert cr (receivers r ex l ps xs)"
      using True cr by (simp add: receivers_Cons)
    show ?thesis unfolding step here using ih d
      by (intro exI [of _ "d # ds"]) simp
  next
    case False
    then have step: "notifyListeners r ex l ps (x # xs) acc = notifyListeners r ex l ps xs acc"
      using cr by (cases "validate l (Some cr) ps") (auto simp: Let_def)
    from Cons.IH [OF rest, of acc] obtain ds
      where ih: "notifyListeners r ex l ps xs acc = Returned (acc @ ds)"
        "set (map target ds) = receivers r ex l ps xs" by blast
    have here: "receivers r ex l ps (x # xs) = receivers r ex l ps xs"
      using False cr by (auto simp: receivers_Cons)
    show ?thesis unfolding step here using ih
      by (intro exI [of _ ds]) simp
  qed
qed

lemma broadcastLayers_targets:
  assumes "\<forall>l \<in> set ls. \<forall>x \<in> set (listeners l). connections r (conn x) \<noteq> None"
  shows "\<exists>ds. broadcastLayers r ex path ls acc = Returned (acc @ ds) \<and>
              set (map target ds) =
                (\<Union>l \<in> set ls. case match l path of
                                   Some ps \<Rightarrow> receivers r ex l ps (listeners l)
                                 | None \<Rightarrow> {})"
  using assms
proof (induction ls arbitrary: acc)
  case Nil
  then show ?case by simp
next
  case (Cons l ls)
  from Cons.prems have here: "\<forall>x \<in> set (listeners l). connections r (conn x) \<noteq> None"
    and rest: "\<forall>l \<in> set ls. \<forall>x \<in> set (listeners l). connections r (conn x) \<noteq> None"
    by simp_all
  show ?case
  proof (cases "match l path")
    case None
    with Cons.IH [OF rest, of acc] show ?thesis by simp
  next
    case (Some ps)
    from notifyListeners_targets [OF here, of ex l ps acc] obtain d1
      where d1: "notifyListeners r ex l ps (listeners l) acc = Returned (acc @ d1)"
        and t1: "set (map target d1) = receivers r ex l ps (listeners l)" by blast
    from Cons.IH [OF rest, of "acc @ d1"] obtain d2
      where d2: "broadcastLayers r ex path ls (acc @ d1) = Returned ((acc @ d1) @ d2)"
        and t2: "set (map target d2) =
                  (\<Union>l \<in> set ls. case match l path of
                                     Some ps \<Rightarrow> receivers r ex l ps (listeners l)
                                   | None \<Rightarrow> {})" by blast
    from Some d1 d2 t1 t2 show ?thesis
      by (intro exI [of _ "d1 @ d2"]) (simp add: Un_commute)
  qed
qed



lemma internalBroadcast_targets:
  assumes "\<forall>l \<in> set (outRoutes r). \<forall>x \<in> set (listeners l). connections r (conn x) \<noteq> None"
  shows "\<exists>ds. internalBroadcast path action payload ex r = Returned ds \<and>
              set (map target ds) =
                (\<Union>l \<in> set (outRoutes r). case match l path of
                                   Some ps \<Rightarrow> receivers r ex l ps (listeners l)
                                 | None \<Rightarrow> {})"
  using broadcastLayers_targets [OF assms, of ex path "[]"]
  by (simp add: internalBroadcast_def)

section \<open>The connection: what each operation keeps\<close>


lemma ackIndexFrom_cases:
  "(ackIndexFrom xs mid n = -1 \<and> (\<forall>i<n. idW (wrappedMsg (xs ! i)) \<noteq> mid)) \<or>
   (\<exists>j<n. ackIndexFrom xs mid n = int j \<and> idW (wrappedMsg (xs ! j)) = mid)"
proof (induction n)
  case 0
  then show ?case by simp
next
  case (Suc n)
  show ?case
  proof (cases "idW (wrappedMsg (xs ! n)) = mid")
    case True
    then show ?thesis by auto
  next
    case False
    with Suc show ?thesis by (auto simp: less_Suc_eq)
  qed
qed

lemma ackIndexFrom_absent:
  "mid \<notin> set (map (\<lambda>e. idW (wrappedMsg e)) xs) \<Longrightarrow> n \<le> length xs \<Longrightarrow> ackIndexFrom xs mid n = -1"
  by (induction n) auto

lemma ackIndexFrom_present:
  assumes "mid \<in> set (map (\<lambda>e. idW (wrappedMsg e)) xs)"
  shows "\<exists>j<length xs. ackIndexFrom xs mid (length xs) = int j \<and> idW (wrappedMsg (xs ! j)) = mid"
proof -
  from assms obtain i where "i < length xs" "idW (wrappedMsg (xs ! i)) = mid"
    by (auto simp: in_set_conv_nth)
  with ackIndexFrom_cases [of xs mid "length xs"] show ?thesis by auto
qed

lemma ids_update_same:
  "map (\<lambda>e. idW (wrappedMsg e)) (xs[i := (xs ! i)\<lparr>sentAmount := a, sentAt := b\<rparr>]) =
   map (\<lambda>e. idW (wrappedMsg e)) xs"
  by (cases "i < length xs") (simp_all add: list_eq_iff_nth_eq nth_list_update)

lemma strategySend_fields:
  "messagesToAck (caught (strategySend w c)) = messagesToAck c"
  "receivedMessages (caught (strategySend w c)) = receivedMessages c"
  "routeCalls (caught (strategySend w c)) = routeCalls c"
  "settled (caught (strategySend w c)) = settled c"
  "header (caught (strategySend w c)) = header c"
  "callbacks (caught (strategySend w c)) = callbacks c"
  "fired (caught (strategySend w c)) = fired c"
  "connected (caught (strategySend w c)) = connected c"
  "nextMsgId (caught (strategySend w c)) = nextMsgId c"
  "waiting (caught (strategySend w c)) = waiting c"
  "now (caught (strategySend w c)) = now c"
  "messagesToSendAfterReconnect (caught (strategySend w c)) = messagesToSendAfterReconnect c"
  "messagesSentInASecond (caught (strategySend w c)) = messagesSentInASecond c"
  "strategyKind (caught (strategySend w c)) = strategyKind c"
  "isClient (caught (strategySend w c)) = isClient c"
  by (simp_all add: strategySend_def split: StrategyKind.splits)

lemma strategySend_sent:
  "sent (caught (strategySend w c)) = (if connected c then sent c @ [w] else sent c)"
  by (simp add: strategySend_def split: StrategyKind.splits)

lemma sendWrappedMsg_ackIds:
  "ackIds (caught (sendWrappedMsg w sentIdx c)) =
     (if messageNeedsAck w \<and> sentIdx = -1 \<and> idW w \<notin> set (ackIds c)
      then ackIds c @ [idW w] else ackIds c)"
proof (cases "messageNeedsAck w")
  case False
  then show ?thesis
    by (simp add: sendWrappedMsg_def strategySend_fields)
next
  case needs: True
  show ?thesis
  proof (cases "sentIdx = -1")
    case True
    show ?thesis
    proof (cases "idW w \<in> set (ackIds c)")
      case present: True
      then obtain j where j: "j < length (messagesToAck c)"
        "ackIndexFrom (messagesToAck c) (idW w) (length (messagesToAck c)) = int j"
        using ackIndexFrom_present [of "idW w" "messagesToAck c"] by auto
      with needs True present show ?thesis
        by (simp add: sendWrappedMsg_def strategySend_fields Let_def ids_update_same)
    next
      case absent: False
      then have "ackIndexFrom (messagesToAck c) (idW w) (length (messagesToAck c)) = -1"
        using ackIndexFrom_absent [of "idW w" "messagesToAck c"] by simp
      with needs True absent show ?thesis
        by (simp add: sendWrappedMsg_def strategySend_fields Let_def)
    qed
  next
    case False
    with needs show ?thesis
      by (simp add: sendWrappedMsg_def strategySend_fields Let_def ids_update_same)
  qed
qed

lemma sendWrappedMsg_fields:
  "receivedMessages (caught (sendWrappedMsg w i c)) = receivedMessages c"
  "routeCalls (caught (sendWrappedMsg w i c)) = routeCalls c"
  "settled (caught (sendWrappedMsg w i c)) = settled c"
  "header (caught (sendWrappedMsg w i c)) = header c"
  "callbacks (caught (sendWrappedMsg w i c)) = callbacks c"
  "fired (caught (sendWrappedMsg w i c)) = fired c"
  "connected (caught (sendWrappedMsg w i c)) = connected c"
  "nextMsgId (caught (sendWrappedMsg w i c)) = nextMsgId c"
  "waiting (caught (sendWrappedMsg w i c)) = waiting c"
  "now (caught (sendWrappedMsg w i c)) = now c"
  "messagesToSendAfterReconnect (caught (sendWrappedMsg w i c)) = messagesToSendAfterReconnect c"
  "messagesSentInASecond (caught (sendWrappedMsg w i c)) = messagesSentInASecond c"
  "strategyKind (caught (sendWrappedMsg w i c)) = strategyKind c"
  "isClient (caught (sendWrappedMsg w i c)) = isClient c"
  by (simp_all add: sendWrappedMsg_def strategySend_fields Let_def)

lemma sendWrappedMsg_unique:
  "distinct (ackIds c) \<Longrightarrow> distinct (ackIds (caught (sendWrappedMsg w i c)))"
  by (simp add: sendWrappedMsg_ackIds)

lemma sendAndForget_eq:
  "sendAndForget m c =
     (if connected c then c\<lparr>sent := sent c @ [\<lparr>idW = -1, msg = m\<rparr>]\<rparr> else c)"
  by (simp add: sendAndForget_def sendWrappedMsg_def messageNeedsAck_def
        new_SendAndForgetMsgWrapper_def strategySend_def)

lemma postAndForget_eq:
  "postAndForget r c =
     (case r of
        Value m \<Rightarrow> if connected c then c\<lparr>sent := sent c @ [\<lparr>idW = -1, msg = m\<rparr>]\<rparr> else c
      | Promised p \<Rightarrow>
          (case settled c p of
             None \<Rightarrow> c\<lparr>waiting := waiting c @ [p]\<rparr>
           | Some (Fulfilled m) \<Rightarrow>
               if connected c then c\<lparr>sent := sent c @ [\<lparr>idW = -1, msg = m\<rparr>]\<rparr> else c
           | Some Rejected \<Rightarrow> c))"
  by (simp add: postAndForget_def sendAndForget_eq split: Response.splits option.splits Settlement.splits)

lemma postAndForget_keeps:
  "receivedMessages (postAndForget r c) = receivedMessages c"
  "routeCalls (postAndForget r c) = routeCalls c"
  "header (postAndForget r c) = header c"
  "ackIds (postAndForget r c) = ackIds c"
  "messagesToAck (postAndForget r c) = messagesToAck c"
  "callbacks (postAndForget r c) = callbacks c"
  "fired (postAndForget r c) = fired c"
  "settled (postAndForget r c) = settled c"
  "connected (postAndForget r c) = connected c"
  "nextMsgId (postAndForget r c) = nextMsgId c"
  by (simp_all add: postAndForget_eq split: Response.splits option.splits Settlement.splits)

lemma sendAndForget_keeps:
  "receivedMessages (sendAndForget m c) = receivedMessages c"
  "routeCalls (sendAndForget m c) = routeCalls c"
  "header (sendAndForget m c) = header c"
  "ackIds (sendAndForget m c) = ackIds c"
  by (simp_all add: sendAndForget_eq)

lemma sendAndForget_pow_keeps:
  "receivedMessages (((sendAndForget m) ^^ n) c) = receivedMessages c"
  "routeCalls (((sendAndForget m) ^^ n) c) = routeCalls c"
  "header (((sendAndForget m) ^^ n) c) = header c"
  "ackIds (((sendAndForget m) ^^ n) c) = ackIds c"
  by (induction n) (simp_all add: sendAndForget_keeps)

lemma postAndExpectResponse_keeps:
  "receivedMessages (snd (caught (postAndExpectResponse m c))) = receivedMessages c"
  "routeCalls (snd (caught (postAndExpectResponse m c))) = routeCalls c"
  "header (snd (caught (postAndExpectResponse m c))) = header c"
  by (simp_all add: postAndExpectResponse_def Let_def sendWrappedMsg_fields)

lemma postAndExpectResponse_unique:
  "distinct (ackIds c) \<Longrightarrow> distinct (ackIds (snd (caught (postAndExpectResponse m c))))"
  by (simp add: postAndExpectResponse_def Let_def sendWrappedMsg_ackIds)

lemma post_keeps:
  "receivedMessages (caught (post m cb c)) = receivedMessages c"
  "routeCalls (caught (post m cb c)) = routeCalls c"
  "header (caught (post m cb c)) = header c"
  using postAndExpectResponse_keeps [of m c]
  by (auto simp: post_def split: Completion.splits option.splits)

lemma post_unique:
  "distinct (ackIds c) \<Longrightarrow> distinct (ackIds (caught (post m cb c)))"
  using postAndExpectResponse_unique [of c m]
  by (auto simp: post_def split: Completion.splits option.splits)

lemma sendToRoute_keeps:
  "receivedMessages (caught (sendToRoute rt verb payload headers cb c)) = receivedMessages c"
  "routeCalls (caught (sendToRoute rt verb payload headers cb c)) = routeCalls c"
  "header (caught (sendToRoute rt verb payload headers cb c)) = header c"
  by (simp_all add: sendToRoute_def postAndExpectResponse_def new_MsgRoute_def isResponse_def
        Let_def sendWrappedMsg_fields split: option.splits)

lemma sendToRoute_unique:
  "distinct (ackIds c) \<Longrightarrow>
   distinct (ackIds (caught (sendToRoute rt verb payload headers cb c)))"
  by (simp add: sendToRoute_def postAndExpectResponse_def new_MsgRoute_def isResponse_def
        Let_def sendWrappedMsg_ackIds split: option.splits)

lemma sendToRouteAndForget_keeps:
  "receivedMessages (sendToRouteAndForget rt verb payload headers c) = receivedMessages c"
  "routeCalls (sendToRouteAndForget rt verb payload headers c) = routeCalls c"
  "header (sendToRouteAndForget rt verb payload headers c) = header c"
  "ackIds (sendToRouteAndForget rt verb payload headers c) = ackIds c"
  by (simp_all add: sendToRouteAndForget_def postAndForget_keeps)

lemma sendEach_keeps:
  "receivedMessages (caught (sendEach ws c)) = receivedMessages c \<and>
   routeCalls (caught (sendEach ws c)) = routeCalls c \<and>
   header (caught (sendEach ws c)) = header c \<and>
   (distinct (ackIds c) \<longrightarrow> distinct (ackIds (caught (sendEach ws c))))"
proof (induction ws arbitrary: c)
  case Nil
  then show ?case by simp
next
  case (Cons w ws)
  show ?case
  proof (cases "sendWrappedMsg w (-1) c")
    case (Returned c1)
    then have c1: "c1 = caught (sendWrappedMsg w (-1) c)" by simp
    from Returned have "sendEach (w # ws) c = sendEach ws c1" by simp
    with Cons [of c1] show ?thesis
      unfolding c1 by (simp add: sendWrappedMsg_fields sendWrappedMsg_unique)
  next
    case (Threw e c1)
    then have c1: "c1 = caught (sendWrappedMsg w (-1) c)" by simp
    from Threw have "caught (sendEach (w # ws) c) = c1" by simp
    then show ?thesis
      unfolding c1 by (simp add: sendWrappedMsg_fields sendWrappedMsg_unique)
  qed
qed

lemma sendMessagesFromLaterList_keeps:
  "receivedMessages (caught (sendMessagesFromLaterList c)) = receivedMessages c \<and>
   routeCalls (caught (sendMessagesFromLaterList c)) = routeCalls c \<and>
   header (caught (sendMessagesFromLaterList c)) = header c \<and>
   (distinct (ackIds c) \<longrightarrow> distinct (ackIds (caught (sendMessagesFromLaterList c))))"
  using sendEach_keeps [of "messagesToSendAfterReconnect c" c]
  by (cases "sendEach (messagesToSendAfterReconnect c) c")
     (simp_all add: sendMessagesFromLaterList_def)

lemma resendFrom_keeps:
  "receivedMessages (caught (resendFrom i c)) = receivedMessages c \<and>
   routeCalls (caught (resendFrom i c)) = routeCalls c \<and>
   header (caught (resendFrom i c)) = header c \<and>
   (distinct (ackIds c) \<longrightarrow> distinct (ackIds (caught (resendFrom i c))))"
proof (induction i c rule: resendFrom.induct)
  case (1 i c)
  show ?case
  proof (cases "i < length (messagesToAck c)")
    case False
    then have "resendFrom i c = Returned c" by (subst resendFrom.simps) simp
    then show ?thesis by simp
  next
    case inside: True
    define m where "m = messagesToAck c ! i"
    show ?thesis
    proof (cases "now c - sentAt m > RESEND_NOT_ANSWERED_MESSAGES_AFTER_MS")
      case False
      with inside have "resendFrom i c = resendFrom (Suc i) c"
        by (subst resendFrom.simps) (simp add: m_def)
      with "1.IH"(2) [OF inside m_def False] show ?thesis by simp
    next
      case due: True
      show ?thesis
      proof (cases "sendWrappedMsg (wrappedMsg m) (int i) c")
        case (Returned c1)
        then have c1: "c1 = caught (sendWrappedMsg (wrappedMsg m) (int i) c)" by simp
        from inside due Returned have "resendFrom i c = resendFrom (Suc i) c1"
          by (subst resendFrom.simps) (simp add: m_def)
        with "1.IH"(1) [OF inside m_def due Returned] show ?thesis
          unfolding c1 by (simp add: sendWrappedMsg_fields sendWrappedMsg_unique)
      next
        case (Threw e c1)
        then have c1: "c1 = caught (sendWrappedMsg (wrappedMsg m) (int i) c)" by simp
        from inside due Threw have "caught (resendFrom i c) = c1"
          by (subst resendFrom.simps) (simp add: m_def)
        then show ?thesis
          unfolding c1 by (simp add: sendWrappedMsg_fields sendWrappedMsg_unique)
      qed
    qed
  qed
qed

lemma resendTick_keeps:
  "receivedMessages (caught (resendTick c)) = receivedMessages c \<and>
   routeCalls (caught (resendTick c)) = routeCalls c \<and>
   header (caught (resendTick c)) = header c \<and>
   (distinct (ackIds c) \<longrightarrow> distinct (ackIds (caught (resendTick c))))"
  using resendFrom_keeps [of 0 c] by (simp add: resendTick_def)

lemma sendPing_keeps:
  "receivedMessages (sendPing c) = receivedMessages c"
  "routeCalls (sendPing c) = routeCalls c"
  "header (sendPing c) = header c"
  by (simp_all add: sendPing_def postAndExpectResponse_def pingMsg_def isResponse_def
        Let_def sendWrappedMsg_fields)

lemma sendPing_unique:
  "distinct (ackIds c) \<Longrightarrow> distinct (ackIds (sendPing c))"
  by (simp add: sendPing_def postAndExpectResponse_def pingMsg_def isResponse_def
        Let_def sendWrappedMsg_ackIds)

lemma settleRouteCall_keeps:
  "receivedMessages (settleRouteCall p outcome c) = receivedMessages c"
  "routeCalls (settleRouteCall p outcome c) = routeCalls c"
  "header (settleRouteCall p outcome c) = header c"
  "ackIds (settleRouteCall p outcome c) = ackIds c"
  by (simp_all add: settleRouteCall_def Let_def sendAndForget_pow_keeps
        split: option.splits Settlement.splits)

lemma removeAckFrom_filter:
  "n \<le> length xs \<Longrightarrow> distinct (map (\<lambda>e. idW (wrappedMsg e)) xs) \<Longrightarrow>
   removeAckFrom xs mid n = filter (\<lambda>e. idW (wrappedMsg e) \<noteq> mid) (take n xs) @ drop n xs"
proof (induction n)
  case 0
  then show ?case by simp
next
  case (Suc n)
  then have n: "n < length xs" by simp
  have tk: "take (Suc n) xs = take n xs @ [xs ! n]"
    using n by (simp add: take_Suc_conv_app_nth)
  show ?case
  proof (cases "idW (wrappedMsg (xs ! n)) = mid")
    case True
    have "\<forall>e \<in> set (take n xs). idW (wrappedMsg e) \<noteq> mid"
    proof
      fix e assume "e \<in> set (take n xs)"
      then obtain j where j: "j < n" "e = xs ! j"
        using n by (auto simp: in_set_conv_nth)
      from Suc.prems(2) n j have "idW (wrappedMsg (xs ! j)) \<noteq> idW (wrappedMsg (xs ! n))"
        by (auto simp: distinct_conv_nth)
      with True j show "idW (wrappedMsg e) \<noteq> mid" by simp
    qed
    then have "filter (\<lambda>e. idW (wrappedMsg e) \<noteq> mid) (take n xs) = take n xs"
      by (simp add: filter_id_conv)
    with True tk show ?thesis by simp
  next
    case False
    with Suc n tk show ?thesis by (simp add: Cons_nth_drop_Suc)
  qed
qed

lemma removeMessageToAck_filter:
  "distinct (ackIds c) \<Longrightarrow>
   messagesToAck (removeMessageToAck mid c) =
     filter (\<lambda>e. idW (wrappedMsg e) \<noteq> mid) (messagesToAck c)"
  by (simp add: removeMessageToAck_def removeAckFrom_filter)

lemma removeMessageToAck_unique:
  "distinct (ackIds c) \<Longrightarrow> distinct (ackIds (removeMessageToAck mid c))"
  by (simp add: removeMessageToAck_filter distinct_map_filter)

lemma removeAckFrom_length:
  "n \<le> length xs \<Longrightarrow>
   length (removeAckFrom xs mid n) = length xs \<or> Suc (length (removeAckFrom xs mid n)) = length xs"
  by (induction n) auto

lemma removeMessageToAck_keeps:
  "receivedMessages (removeMessageToAck mid c) = receivedMessages c"
  "routeCalls (removeMessageToAck mid c) = routeCalls c"
  "header (removeMessageToAck mid c) = header c"
  "callbacks (removeMessageToAck mid c) = callbacks c"
  "fired (removeMessageToAck mid c) = fired c"
  "sent (removeMessageToAck mid c) = sent c"
  "connected (removeMessageToAck mid c) = connected c"
  "settled (removeMessageToAck mid c) = settled c"
  by (simp_all add: removeMessageToAck_def)

lemma handleResponse_keeps:
  "receivedMessages (fst (caught (handleResponse h m s))) = receivedMessages (fst s)"
  "routeCalls (fst (caught (handleResponse h m s))) = routeCalls (fst s)"
  "header (fst (caught (handleResponse h m s))) = header (fst s)"
  "sent (fst (caught (handleResponse h m s))) = sent (fst s)"
  "connected (fst (caught (handleResponse h m s))) = connected (fst s)"
  "settled (fst (caught (handleResponse h m s))) = settled (fst s)"
  by (simp_all add: handleResponse_def Let_def removeMessageToAck_keeps
        split: MsgType.splits option.splits sum.splits)

lemma handleResponse_unique:
  "distinct (ackIds (fst s)) \<Longrightarrow> distinct (ackIds (fst (caught (handleResponse h m s))))"
  by (auto simp: handleResponse_def Let_def split: MsgType.splits option.splits sum.splits
           intro!: removeMessageToAck_unique)

lemma caught_response:
  "fst (snd (caught (case r of
                       Returned s1 \<Rightarrow> Returned (x, fst s1, snd s1)
                     | Threw e s1 \<Rightarrow> Threw e (x, fst s1, snd s1)))) = fst (caught r)"
  by (cases r) simp_all

lemma dispatch_keeps:
  "receivedMessages (fst (snd (caught (dispatch h w s)))) = receivedMessages (fst s)"
  "sent (fst (snd (caught (dispatch h w s)))) = sent (fst s)"
  "connected (fst (snd (caught (dispatch h w s)))) = connected (fst s)"
  "settled (fst (snd (caught (dispatch h w s)))) = settled (fst s)"
  by (simp_all add: dispatch_def handleDataSet_def handleRouteSubscription_def
        handleRouteUnsubscription_def handleRouteMessage_def handleResponse_keeps caught_response Let_def
        split: MsgType.splits sum.splits)

lemma dispatch_unique:
  "distinct (ackIds (fst s)) \<Longrightarrow> distinct (ackIds (fst (snd (caught (dispatch h w s)))))"
  by (simp add: dispatch_def handleDataSet_def handleRouteSubscription_def
        handleRouteUnsubscription_def handleRouteMessage_def handleResponse_unique caught_response Let_def
        split: MsgType.splits sum.splits)

lemma dispatch_header:
  "header (fst (snd (caught (dispatch h w s)))) =
     (case msg w of MsgDataSet key v \<Rightarrow> (header (fst s))(key \<mapsto> v) | _ \<Rightarrow> header (fst s))"
  by (simp add: dispatch_def handleDataSet_def handleRouteSubscription_def
        handleRouteUnsubscription_def handleRouteMessage_def handleResponse_keeps caught_response Let_def
        split: MsgType.splits sum.splits)

lemma dispatch_routeCalls:
  "routeCalls (fst (snd (caught (dispatch h w s)))) =
     (case msg w of
        MsgRoute rt verb d headers \<Rightarrow> routeCalls (fst s) @ [(idW w, msg w)]
      | _ \<Rightarrow> routeCalls (fst s))"
  by (simp add: dispatch_def handleDataSet_def handleRouteSubscription_def
        handleRouteUnsubscription_def handleRouteMessage_def handleResponse_keeps caught_response Let_def
        split: MsgType.splits sum.splits)

lemma receivedPairFrom_append:
  "n \<le> length xs \<Longrightarrow> receivedPairFrom (xs @ ys) mid n = receivedPairFrom xs mid n"
  by (induction n) (simp_all add: nth_append)

lemma getReceivedPairById_remember:
  "getReceivedPairById (rememberReceived w r c) mid =
     (if idW w = mid then Some \<lparr>wrapper = w, response = TrackedPromise r\<rparr>
      else getReceivedPairById c mid)"
  by (simp add: getReceivedPairById_def rememberReceived_def receivedPairFrom_append)

lemma getReceivedPairById_cong:
  "receivedMessages c1 = receivedMessages c \<Longrightarrow> getReceivedPairById c1 mid = getReceivedPairById c mid"
  by (simp add: getReceivedPairById_def)

lemma handleMessage_duplicate:
  "idW w \<noteq> -1 \<Longrightarrow> getReceivedPairById (fst s) (idW w) = Some pair \<Longrightarrow>
   handleMessage h w s =
     (postAndForget
        (if isPending (fst s) (response pair)
         then Value (new_MsgResponseWithCode (idW w) 202 (PStr ''Message is being processed''))
         else getOriginal (response pair))
        (fst s), snd s)"
  by (simp add: handleMessage_def)

lemma handleMessage_forget:
  "idW w = -1 \<Longrightarrow> handleMessage h w s = snd (caught (dispatch h w s))"
  by (cases "dispatch h w s") (auto simp: handleMessage_def)

lemma handleMessage_first:
  "idW w \<noteq> -1 \<Longrightarrow> getReceivedPairById (fst s) (idW w) = None \<Longrightarrow>
   handleMessage h w s =
     (case dispatch h w s of
        Returned (resp, c1, env1) \<Rightarrow>
          (rememberReceived w
             (case resp of
                None \<Rightarrow> Value (new_MsgGenericError (idW w) (PStr ''No response''))
              | Some r0 \<Rightarrow> r0)
             (postAndForget
                (case resp of
                   None \<Rightarrow> Value (new_MsgGenericError (idW w) (PStr ''No response''))
                 | Some r0 \<Rightarrow> r0)
                c1), env1)
      | Threw e (resp, c1, env1) \<Rightarrow>
          (rememberReceived w (Value (new_MsgGenericError (idW w) (PStr ''No response'')))
             (postAndForget
                (Value (new_MsgGenericError (idW w) (PStr ''Error handling message''))) c1),
           env1))"
  by (simp add: handleMessage_def Let_def split: Completion.splits)

lemma rememberReceived_keeps:
  "routeCalls (rememberReceived w r c) = routeCalls c"
  "header (rememberReceived w r c) = header c"
  "messagesToAck (rememberReceived w r c) = messagesToAck c"
  "sent (rememberReceived w r c) = sent c"
  "connected (rememberReceived w r c) = connected c"
  "settled (rememberReceived w r c) = settled c"
  "callbacks (rememberReceived w r c) = callbacks c"
  "fired (rememberReceived w r c) = fired c"
  by (simp_all add: rememberReceived_def)

lemma handleMessage_unique:
  assumes "distinct (ackIds (fst s))"
  shows "distinct (ackIds (fst (handleMessage h w s)))"
proof (cases "idW w \<noteq> -1")
  case False
  with dispatch_unique [OF assms, of h w] show ?thesis by (simp add: handleMessage_forget)
next
  case needs: True
  show ?thesis
  proof (cases "getReceivedPairById (fst s) (idW w)")
    case (Some pair)
    with needs assms show ?thesis
      by (simp add: handleMessage_duplicate postAndForget_keeps)
  next
    case None
    with needs dispatch_unique [OF assms, of h w] show ?thesis
      by (cases "dispatch h w s")
         (auto simp: handleMessage_first rememberReceived_keeps postAndForget_keeps)
  qed
qed

lemma handleMessage_header:
  "header (fst (handleMessage h w s)) =
     (if idW w \<noteq> -1 \<and> getReceivedPairById (fst s) (idW w) \<noteq> None then header (fst s)
      else (case msg w of
              MsgDataSet key v \<Rightarrow> (header (fst s))(key \<mapsto> v)
            | _ \<Rightarrow> header (fst s)))"
proof (cases "idW w \<noteq> -1")
  case False
  with dispatch_header [of h w s] show ?thesis by (simp add: handleMessage_forget)
next
  case needs: True
  show ?thesis
  proof (cases "getReceivedPairById (fst s) (idW w)")
    case (Some pair)
    with needs show ?thesis
      by (simp add: handleMessage_duplicate postAndForget_keeps)
  next
    case None
    with needs dispatch_header [of h w s] show ?thesis
      by (cases "dispatch h w s")
         (auto simp: handleMessage_first rememberReceived_keeps postAndForget_keeps)
  qed
qed

lemma handleMessage_routeCalls:
  "routeCalls (fst (handleMessage h w s)) =
     (if idW w \<noteq> -1 \<and> getReceivedPairById (fst s) (idW w) \<noteq> None then routeCalls (fst s)
      else (case msg w of
              MsgRoute rt verb d headers \<Rightarrow> routeCalls (fst s) @ [(idW w, msg w)]
            | _ \<Rightarrow> routeCalls (fst s)))"
proof (cases "idW w \<noteq> -1")
  case False
  with dispatch_routeCalls [of h w s] show ?thesis by (simp add: handleMessage_forget)
next
  case needs: True
  show ?thesis
  proof (cases "getReceivedPairById (fst s) (idW w)")
    case (Some pair)
    with needs show ?thesis
      by (simp add: handleMessage_duplicate postAndForget_keeps)
  next
    case None
    with needs dispatch_routeCalls [of h w s] show ?thesis
      by (cases "dispatch h w s")
         (auto simp: handleMessage_first rememberReceived_keeps postAndForget_keeps)
  qed
qed

lemma handleMessage_lookup:
  assumes "getReceivedPairById (fst s) mid = Some pair"
  shows "getReceivedPairById (fst (handleMessage h w s)) mid = Some pair"
proof (cases "idW w \<noteq> -1")
  case False
  with assms dispatch_keeps(1) [of h w s] show ?thesis
    by (simp add: handleMessage_forget getReceivedPairById_def)
next
  case needs: True
  show ?thesis
  proof (cases "getReceivedPairById (fst s) (idW w)")
    case (Some other)
    with needs assms show ?thesis
      by (simp add: handleMessage_duplicate getReceivedPairById_def postAndForget_keeps)
  next
    case None
    with assms have differs: "idW w \<noteq> mid" by auto
    have "getReceivedPairById (postAndForget r (fst (snd (caught (dispatch h w s))))) mid =
          getReceivedPairById (fst s) mid" for r
      using dispatch_keeps(1) [of h w s]
      by (simp add: getReceivedPairById_def postAndForget_keeps)
    with needs None assms differs show ?thesis
      by (cases "dispatch h w s")
         (auto simp: handleMessage_first getReceivedPairById_remember)
  qed
qed

lemma handleMessage_stored:
  "idW w \<noteq> -1 \<Longrightarrow> getReceivedPairById (fst (handleMessage h w s)) (idW w) \<noteq> None"
proof (cases "getReceivedPairById (fst s) (idW w)")
  case (Some pair)
  assume "idW w \<noteq> -1"
  with Some show ?thesis
    by (simp add: handleMessage_duplicate getReceivedPairById_def postAndForget_keeps)
next
  case None
  assume "idW w \<noteq> -1"
  with None show ?thesis
    by (cases "dispatch h w s")
       (auto simp: handleMessage_first getReceivedPairById_remember)
qed

lemma update_unique_entry:
  assumes "distinct (map (\<lambda>e. idW (wrappedMsg e)) xs)" and "j < length xs"
    and "idW (wrappedMsg (xs ! j)) = mid"
  shows "xs[j := g (xs ! j)] = map (\<lambda>e. if idW (wrappedMsg e) = mid then g e else e) xs"
proof (rule nth_equalityI)
  show "length (xs[j := g (xs ! j)]) =
        length (map (\<lambda>e. if idW (wrappedMsg e) = mid then g e else e) xs)" by simp
next
  fix i assume "i < length (xs[j := g (xs ! j)])"
  then have i: "i < length xs" by simp
  show "xs[j := g (xs ! j)] ! i =
        map (\<lambda>e. if idW (wrappedMsg e) = mid then g e else e) xs ! i"
  proof (cases "i = j")
    case True
    with assms i show ?thesis by simp
  next
    case False
    with assms i have "idW (wrappedMsg (xs ! i)) \<noteq> mid"
      by (auto simp: distinct_conv_nth)
    with False i show ?thesis by simp
  qed
qed

lemma sendWrappedMsg_push:
  assumes "messageNeedsAck w" and "idW w \<notin> set (ackIds c)"
  shows "messagesToAck (caught (sendWrappedMsg w (-1) c)) =
           messagesToAck c @ [\<lparr>wrappedMsg = w, sentAt = now c, sentAmount = 1\<rparr>]"
proof -
  from assms(2) have "ackIndexFrom (messagesToAck c) (idW w) (length (messagesToAck c)) = -1"
    using ackIndexFrom_absent [of "idW w" "messagesToAck c"] by simp
  with assms(1) show ?thesis
    by (simp add: sendWrappedMsg_def strategySend_fields Let_def)
qed

lemma sendWrappedMsg_upsert:
  assumes "messageNeedsAck w" and "idW w \<in> set (ackIds c)" and "distinct (ackIds c)"
  shows "messagesToAck (caught (sendWrappedMsg w (-1) c)) =
           map (\<lambda>e. if idW (wrappedMsg e) = idW w
                     then e\<lparr>sentAmount := sentAmount e + 1, sentAt := now c\<rparr> else e)
               (messagesToAck c)"
proof -
  from assms(2) obtain j where j: "j < length (messagesToAck c)"
    "ackIndexFrom (messagesToAck c) (idW w) (length (messagesToAck c)) = int j"
    "idW (wrappedMsg (messagesToAck c ! j)) = idW w"
    using ackIndexFrom_present [of "idW w" "messagesToAck c"] by auto
  from update_unique_entry [OF assms(3) j(1) j(3),
      of "\<lambda>e. e\<lparr>sentAmount := sentAmount e + 1, sentAt := now c\<rparr>"]
  show ?thesis using assms(1) j
    by (simp add: sendWrappedMsg_def strategySend_fields Let_def)
qed

lemma step_unique:
  "distinct (ackIds (fst s)) \<Longrightarrow> distinct (ackIds (fst (step h ev s)))"
proof (cases ev)
  case (EvReceive w)
  assume "distinct (ackIds (fst s))"
  with EvReceive show ?thesis by (simp add: handleMessage_unique)
next
  case EvResendTick
  assume "distinct (ackIds (fst s))"
  with EvResendTick resendTick_keeps [of "fst s"] show ?thesis by simp
next
  case EvFlush
  assume "distinct (ackIds (fst s))"
  with EvFlush sendMessagesFromLaterList_keeps [of "fst s"] show ?thesis by simp
qed (simp_all add: post_unique sendToRoute_unique sendToRouteAndForget_keeps
       rateWindowTick_def sendPing_unique settleRouteCall_keeps)

lemma run_unique:
  "distinct (ackIds (fst s)) \<Longrightarrow> distinct (ackIds (fst (run h evs s)))"
  by (induction evs arbitrary: s) (simp_all add: step_unique)

lemma step_lookup:
  assumes "getReceivedPairById (fst s) mid = Some pair"
  shows "getReceivedPairById (fst (step h ev s)) mid = Some pair"
proof (cases ev)
  case (EvReceive w)
  with assms show ?thesis by (simp add: handleMessage_lookup)
next
  case EvResendTick
  with assms resendTick_keeps [of "fst s"] show ?thesis
    by (simp add: getReceivedPairById_def)
next
  case EvFlush
  with assms sendMessagesFromLaterList_keeps [of "fst s"] show ?thesis
    by (simp add: getReceivedPairById_def)
qed (use assms in \<open>simp_all add: getReceivedPairById_def post_keeps sendToRoute_keeps
       sendToRouteAndForget_keeps rateWindowTick_def sendPing_keeps settleRouteCall_keeps\<close>)

lemma run_lookup:
  "getReceivedPairById (fst s) mid = Some pair \<Longrightarrow>
   getReceivedPairById (fst (run h evs s)) mid = Some pair"
  by (induction evs arbitrary: s) (simp_all add: step_lookup)

lemma step_routeCalls:
  assumes "getReceivedPairById (fst s) mid \<noteq> None" and "mid \<noteq> -1"
  shows "filter (\<lambda>rc. fst rc = mid) (routeCalls (fst (step h ev s))) =
         filter (\<lambda>rc. fst rc = mid) (routeCalls (fst s))"
proof (cases ev)
  case (EvReceive w)
  with assms show ?thesis
    by (auto simp: handleMessage_routeCalls split: MsgType.splits)
next
  case EvResendTick
  with resendTick_keeps [of "fst s"] show ?thesis by simp
next
  case EvFlush
  with sendMessagesFromLaterList_keeps [of "fst s"] show ?thesis by simp
qed (simp_all add: post_keeps sendToRoute_keeps sendToRouteAndForget_keeps rateWindowTick_def
       sendPing_keeps settleRouteCall_keeps)

lemma run_routeCalls:
  "getReceivedPairById (fst s) mid \<noteq> None \<Longrightarrow> mid \<noteq> -1 \<Longrightarrow>
   filter (\<lambda>rc. fst rc = mid) (routeCalls (fst (run h evs s))) =
   filter (\<lambda>rc. fst rc = mid) (routeCalls (fst s))"
proof (induction evs arbitrary: s)
  case Nil
  then show ?case by simp
next
  case (Cons ev evs)
  from Cons.prems(1) obtain pair where "getReceivedPairById (fst s) mid = Some pair" by auto
  then have "getReceivedPairById (fst (step h ev s)) mid \<noteq> None"
    by (simp add: step_lookup)
  from Cons.IH [OF this Cons.prems(2)] step_routeCalls [OF Cons.prems, of h ev]
  show ?case by simp
qed

lemma step_secret:
  assumes "\<not> setsSecret ev"
  shows "header (fst (step h ev s)) ''secret'' = header (fst s) ''secret''"
proof (cases ev)
  case (EvReceive w)
  with assms show ?thesis
    by (auto simp: handleMessage_header split: MsgType.splits)
next
  case EvResendTick
  with resendTick_keeps [of "fst s"] show ?thesis by simp
next
  case EvFlush
  with sendMessagesFromLaterList_keeps [of "fst s"] show ?thesis by simp
qed (simp_all add: post_keeps sendToRoute_keeps sendToRouteAndForget_keeps rateWindowTick_def
       sendPing_keeps settleRouteCall_keeps)

lemma run_secret:
  "list_all (\<lambda>ev. \<not> setsSecret ev) evs \<Longrightarrow>
   header (fst (run h evs s)) ''secret'' = header (fst s) ''secret''"
  by (induction evs arbitrary: s) (simp_all add: step_secret)


lemma postAndExpectResponse_route:
  "postAndExpectResponse (MsgRoute rt verb d headers) c =
     Returned (nextMsgId c,
       if connected c
       then caught (sendWrappedMsg \<lparr>idW = nextMsgId c, msg = MsgRoute rt verb d headers\<rparr> (-1)
                      (c\<lparr>nextMsgId := nextMsgId c + 1\<rparr>))
       else c\<lparr>nextMsgId := nextMsgId c + 1,
               messagesToSendAfterReconnect :=
                 messagesToSendAfterReconnect c @
                   [\<lparr>idW = nextMsgId c, msg = MsgRoute rt verb d headers\<rparr>]\<rparr>)"
  by (simp add: postAndExpectResponse_def isResponse_def Let_def new_MsgWrapper_def)

lemma sendWrappedMsg_sent:
  "sent (caught (sendWrappedMsg w i c)) =
     (if connected c \<and>
         (messageNeedsAck w \<longrightarrow> i = -1 \<or> (0 \<le> i \<and> i < int (length (messagesToAck c))))
      then sent c @ [w] else sent c)"
proof -
  have "ackIndexFrom (messagesToAck c) (idW w) (length (messagesToAck c)) = -1 \<or>
        (0 \<le> ackIndexFrom (messagesToAck c) (idW w) (length (messagesToAck c)) \<and>
         ackIndexFrom (messagesToAck c) (idW w) (length (messagesToAck c))
           < int (length (messagesToAck c)))"
    using ackIndexFrom_cases [of "messagesToAck c" "idW w" "length (messagesToAck c)"] by auto
  then show ?thesis
    by (auto simp: sendWrappedMsg_def strategySend_def Let_def split: StrategyKind.splits)
qed

lemma sendWrappedMsg_shape:
  "caught (sendWrappedMsg w i c) =
     c\<lparr>messagesToAck := acksAfterSend w i (now c) (messagesToAck c),
       sent := (if connected c \<and>
                   (messageNeedsAck w \<longrightarrow>
                      i = -1 \<or> (0 \<le> i \<and> i < int (length (messagesToAck c))))
                then sent c @ [w] else sent c)\<rparr>"
proof -
  have "ackIndexFrom (messagesToAck c) (idW w) (length (messagesToAck c)) = -1 \<or>
        (0 \<le> ackIndexFrom (messagesToAck c) (idW w) (length (messagesToAck c)) \<and>
         ackIndexFrom (messagesToAck c) (idW w) (length (messagesToAck c))
           < int (length (messagesToAck c)))"
    using ackIndexFrom_cases [of "messagesToAck c" "idW w" "length (messagesToAck c)"] by auto
  then show ?thesis
    by (auto simp: sendWrappedMsg_def strategySend_def acksAfterSend_def Let_def
             split: StrategyKind.splits)
qed

lemma postAndForget_sent:
  "sent (postAndForget (Value m) c) =
     (if connected c then sent c @ [\<lparr>idW = -1, msg = m\<rparr>] else sent c)"
  by (simp add: postAndForget_eq)

lemma handleMessage_duplicate_keeps:
  assumes "idW w \<noteq> -1" and "getReceivedPairById (fst s) (idW w) = Some pair"
  shows "snd (handleMessage h w s) = snd s"
    "routeCalls (fst (handleMessage h w s)) = routeCalls (fst s)"
    "header (fst (handleMessage h w s)) = header (fst s)"
    "fired (fst (handleMessage h w s)) = fired (fst s)"
    "callbacks (fst (handleMessage h w s)) = callbacks (fst s)"
    "messagesToAck (fst (handleMessage h w s)) = messagesToAck (fst s)"
    "receivedMessages (fst (handleMessage h w s)) = receivedMessages (fst s)"
  using assms by (simp_all add: handleMessage_duplicate postAndForget_keeps)

text \<open>The definitions a concrete run unfolds.\<close>

lemmas evaluation =
  newConnection_def newClient_def newServer_def post_def postAndExpectResponse_def
  sendWrappedMsg_def strategySend_def messageNeedsAck_def isResponse_def new_MsgWrapper_def
  new_SendAndForgetMsgWrapper_def handleResponse_def translateResponse_def
  new_RouteResponse_def new_RouteResponseError_def removeMessageToAck_def Let_def
  pingMsg_def sendPing_def sendToRoute_def new_MsgRoute_def SEND_LIMIT_PER_SEC_def
  rateLimitResponse_def new_MsgResponseWithCode_def new_MsgResponseOK_def new_MsgResponse_def
  new_MsgGenericError_def handleMessage_def dispatch_def handleDataSet_def
  handleRouteSubscription_def handleRouteUnsubscription_def handleRouteMessage_def
  getReceivedPairById_def rememberReceived_def postAndForget_def sendAndForget_def
  isPending_def defaultHooks_def settleRouteCall_def routeReply_def getSecret_def
  rateWindowTick_def invokeCallback_def

section \<open>Scenarios\<close>

text \<open>
  Runs of the model on the spec's scenarios. Retry: an unanswered route envelope is sent
  again once more than 3000 ms have passed, with the same id, and its entry counts two
  sends. Reconnect: three envelopes posted while the transport is closed are flushed in
  order after the strategy is replaced, one entry each. Duplicate ping: both deliveries are
  answered with \<open>pong\<close>. Server side: a \<open>set secret\<close> enters the connection in the directory,
  and the subscription that follows adds its listener.
\<close>



lemma retry_scenario:
  "map (\<lambda>e. (idW (wrappedMsg e), sentAt e, sentAmount e))
     (messagesToAck (fst (run defaultHooks
        [EvConnected True, EvSendToRoute ''/x'' ''POST'' (PNum 1) None None, EvClock 3000,
         EvResendTick, EvClock 3001, EvResendTick, EvResendTick]
        (newClient WebSocketStrategy ''abc'', ())))) = [(0, 3001, 2)]
   \<and> map idW (sent (fst (run defaultHooks
        [EvConnected True, EvSendToRoute ''/x'' ''POST'' (PNum 1) None None, EvClock 3000,
         EvResendTick, EvClock 3001, EvResendTick, EvResendTick]
        (newClient WebSocketStrategy ''abc'', ())))) = [0, 0]"
  by (simp add: evaluation resendTick_def resendFrom.simps RESEND_NOT_ANSWERED_MESSAGES_AFTER_MS_def)

lemma flush_scenario:
  "map (\<lambda>e. (idW (wrappedMsg e), sentAmount e))
     (messagesToAck (fst (run defaultHooks
        [EvSendToRoute ''/a'' ''POST'' (PNum 1) None None,
         EvSendToRoute ''/b'' ''POST'' (PNum 1) None None,
         EvSendToRoute ''/c'' ''POST'' (PNum 1) None None,
         EvStrategy HttpStrategy, EvConnected True, EvFlush]
        (newClient WebSocketStrategy ''abc'', ())))) = [(0, 1), (1, 1), (2, 1)]
   \<and> map idW (sent (fst (run defaultHooks
        [EvSendToRoute ''/a'' ''POST'' (PNum 1) None None,
         EvSendToRoute ''/b'' ''POST'' (PNum 1) None None,
         EvSendToRoute ''/c'' ''POST'' (PNum 1) None None,
         EvStrategy HttpStrategy, EvConnected True, EvFlush]
        (newClient WebSocketStrategy ''abc'', ())))) = [0, 1, 2]
   \<and> messagesToSendAfterReconnect (fst (run defaultHooks
        [EvSendToRoute ''/a'' ''POST'' (PNum 1) None None,
         EvSendToRoute ''/b'' ''POST'' (PNum 1) None None,
         EvSendToRoute ''/c'' ''POST'' (PNum 1) None None,
         EvStrategy HttpStrategy, EvConnected True, EvFlush]
        (newClient WebSocketStrategy ''abc'', ()))) = []"
  by (simp add: evaluation sendMessagesFromLaterList_def)

lemma ping_scenario:
  "sent (fst (run defaultHooks [EvConnected True, EvReceive \<lparr>idW = 3, msg = MsgPing\<rparr>,
                                EvReceive \<lparr>idW = 3, msg = MsgPing\<rparr>]
        (newServer WebSocketStrategy, ()))) =
   [\<lparr>idW = -1, msg = MsgResponse 3 200 (PStr ''pong'')\<rparr>,
    \<lparr>idW = -1, msg = MsgResponse 3 200 (PStr ''pong'')\<rparr>]"
  by (simp add: evaluation)

lemma server_handshake_scenario:
  "connections (snd (run (routerHooks 0)
      [EvConnected True, EvReceive \<lparr>idW = 0, msg = MsgDataSet ''secret'' (PStr ''s1'')\<rparr>,
       EvReceive \<lparr>idW = 1, msg = MsgSubscribeToRoute ''/t/1''\<rparr>]
      (newServer WebSocketStrategy,
       \<lparr>nextRouteSubID = 1, connections = Map.empty, outRoutes = [topicLayer []]\<rparr>))) ''s1'' = Some 0
   \<and> map listeners (outRoutes (snd (run (routerHooks 0)
      [EvConnected True, EvReceive \<lparr>idW = 0, msg = MsgDataSet ''secret'' (PStr ''s1'')\<rparr>,
       EvReceive \<lparr>idW = 1, msg = MsgSubscribeToRoute ''/t/1''\<rparr>]
      (newServer WebSocketStrategy,
       \<lparr>nextRouteSubID = 1, connections = Map.empty, outRoutes = [topicLayer []]\<rparr>)))) =
     [[\<lparr>conn = ''s1'', params = [''1'']\<rparr>]]
   \<and> sent (fst (run (routerHooks 0)
      [EvConnected True, EvReceive \<lparr>idW = 0, msg = MsgDataSet ''secret'' (PStr ''s1'')\<rparr>,
       EvReceive \<lparr>idW = 1, msg = MsgSubscribeToRoute ''/t/1''\<rparr>]
      (newServer WebSocketStrategy,
       \<lparr>nextRouteSubID = 1, connections = Map.empty, outRoutes = [topicLayer []]\<rparr>))) =
     [\<lparr>idW = -1, msg = MsgResponse 0 200 (PArr [PStr ''secret'', PStr ''s1''])\<rparr>,
      \<lparr>idW = -1, msg = MsgResponse 1 200 (PStr ''OK'')\<rparr>]"
  by (simp add: evaluation routerHooks_def subscribeConnectionToRoute_def topicLayer_def topicMatch_1)

section \<open>Claims\<close>

text \<open>
  Duplicate deliveries. An inbound envelope with an id other than -1 is dispatched on its
  first delivery only. After that delivery \<open>receivedMessages\<close> holds a pair for the id, and
  the pair stays whatever happens to the connection afterwards (\<open>evs\<close>). A later delivery
  of the envelope only calls \<open>postAndForget\<close>: with the response \<open>{res, target = id,
  status = 202, data = "Message is being processed"}\<close> while the tracked response of the
  first delivery is pending, with the original cached response otherwise. On a connected
  transport that is one envelope with id -1 when the cached response is a value or a
  fulfilled promise, and nothing at all when it is a rejected promise. The delivery calls no
  handler and leaves the owner's state, the header, the callbacks and both logs as they
  were; the \<open>onRouteMessage\<close> calls for the id stay those of the first delivery, which made
  exactly one for a route message.
\<close>

lemma duplicate_delivery:
  fixes h :: "'e Hooks" and w :: MsgWrapper and s0 :: "Connection \<times> 'e" and evs :: "Event list"
  defines "s1 \<equiv> handleMessage h w s0"
  defines "s \<equiv> run h evs (handleMessage h w s0)"
  assumes "idW w \<noteq> -1"
  shows "\<exists>pair.
           getReceivedPairById (fst s1) (idW w) = Some pair \<and>
           getReceivedPairById (fst s) (idW w) = Some pair \<and>
           handleMessage h w s =
             (postAndForget
                (if isPending (fst s) (response pair)
                 then Value (MsgResponse (idW w) 202 (PStr ''Message is being processed''))
                 else getOriginal (response pair))
                (fst s), snd s) \<and>
           sent (fst (handleMessage h w s)) =
             (if isPending (fst s) (response pair) then
                (if connected (fst s)
                 then sent (fst s) @
                        [\<lparr>idW = -1,
                          msg = MsgResponse (idW w) 202 (PStr ''Message is being processed'')\<rparr>]
                 else sent (fst s))
              else
                (case getOriginal (response pair) of
                   Value m \<Rightarrow>
                     if connected (fst s) then sent (fst s) @ [\<lparr>idW = -1, msg = m\<rparr>]
                     else sent (fst s)
                 | Promised p \<Rightarrow>
                     (case settled (fst s) p of
                        Some (Fulfilled m) \<Rightarrow>
                          if connected (fst s) then sent (fst s) @ [\<lparr>idW = -1, msg = m\<rparr>]
                          else sent (fst s)
                      | _ \<Rightarrow> sent (fst s)))) \<and>
           snd (handleMessage h w s) = snd s \<and>
           routeCalls (fst (handleMessage h w s)) = routeCalls (fst s) \<and>
           header (fst (handleMessage h w s)) = header (fst s) \<and>
           fired (fst (handleMessage h w s)) = fired (fst s) \<and>
           callbacks (fst (handleMessage h w s)) = callbacks (fst s) \<and>
           messagesToAck (fst (handleMessage h w s)) = messagesToAck (fst s) \<and>
           receivedMessages (fst (handleMessage h w s)) = receivedMessages (fst s) \<and>
           filter (\<lambda>rc. fst rc = idW w) (routeCalls (fst (handleMessage h w s))) =
             filter (\<lambda>rc. fst rc = idW w) (routeCalls (fst s1)) \<and>
           (getReceivedPairById (fst s0) (idW w) = None \<longrightarrow>
              snd s1 = snd (snd (caught (dispatch h w s0))) \<and>
              header (fst s1) = header (fst (snd (caught (dispatch h w s0)))) \<and>
              routeCalls (fst s1) =
                routeCalls (fst s0) @
                  (case msg w of MsgRoute rt verb d headers \<Rightarrow> [(idW w, msg w)] | _ \<Rightarrow> []))"
proof -
  from assms(3) obtain pair where stored: "getReceivedPairById (fst s1) (idW w) = Some pair"
    using handleMessage_stored [of w h s0] by (auto simp: s1_def)
  then have later: "getReceivedPairById (fst s) (idW w) = Some pair"
    using run_lookup [of s1 "idW w" pair h evs] by (simp add: s_def s1_def)
  have again: "handleMessage h w s =
      (postAndForget
         (if isPending (fst s) (response pair)
          then Value (MsgResponse (idW w) 202 (PStr ''Message is being processed''))
          else getOriginal (response pair))
         (fst s), snd s)"
    using handleMessage_duplicate [OF assms(3) later, of h]
    by (simp add: new_MsgResponseWithCode_def)
  have sends: "sent (fst (handleMessage h w s)) =
      (if isPending (fst s) (response pair) then
         (if connected (fst s)
          then sent (fst s) @
                 [\<lparr>idW = -1,
                   msg = MsgResponse (idW w) 202 (PStr ''Message is being processed'')\<rparr>]
          else sent (fst s))
       else
         (case getOriginal (response pair) of
            Value m \<Rightarrow>
              if connected (fst s) then sent (fst s) @ [\<lparr>idW = -1, msg = m\<rparr>]
              else sent (fst s)
          | Promised p \<Rightarrow>
              (case settled (fst s) p of
                 Some (Fulfilled m) \<Rightarrow>
                   if connected (fst s) then sent (fst s) @ [\<lparr>idW = -1, msg = m\<rparr>]
                   else sent (fst s)
               | _ \<Rightarrow> sent (fst s))))"
    unfolding again
    by (auto simp: postAndForget_eq isPending_def
             split: Response.splits option.splits Settlement.splits)
  have calls: "filter (\<lambda>rc. fst rc = idW w) (routeCalls (fst s)) =
      filter (\<lambda>rc. fst rc = idW w) (routeCalls (fst s1))"
    using run_routeCalls [of s1 "idW w" h evs] stored assms(3) by (simp add: s_def s1_def)
  have first: "routeCalls (fst s1) =
      routeCalls (fst s0) @
        (case msg w of MsgRoute rt verb d headers \<Rightarrow> [(idW w, msg w)] | _ \<Rightarrow> [])"
    if "getReceivedPairById (fst s0) (idW w) = None"
    using that by (simp add: s1_def handleMessage_routeCalls split: MsgType.splits)
  have owner: "snd s1 = snd (snd (caught (dispatch h w s0)))"
    and hdr: "header (fst s1) = header (fst (snd (caught (dispatch h w s0))))"
    if "getReceivedPairById (fst s0) (idW w) = None"
    using that assms(3)
    by (cases "dispatch h w s0";
        auto simp: s1_def handleMessage_first rememberReceived_keeps postAndForget_keeps)+
  show ?thesis
    using stored later again sends calls first owner hdr
      handleMessage_duplicate_keeps [OF assms(3) later, of h]
    by (intro exI [of _ pair]) simp
qed

text \<open>
  C1. A server on a connected transport receives the route envelope 42, whose
  \<open>onRouteMessage\<close> handler rejects, and then the same envelope again. The handler is called
  once, and the pair cached for the id holds a promise that is settled (rejected, no longer
  pending). The second delivery takes the branch for a settled response and calls
  \<open>postAndForget\<close> with the promise, whose \<open>await\<close> throws: nothing is re-sent, and nothing was
  sent for the first delivery either. Had the handler resolved, the response would have
  been sent once for each delivery; while it has not settled, the second delivery is
  answered with 202; and a handler that throws before returning a promise, as the
  subscription hooks can, is answered by the \<open>catch\<close> of \<open>handleMessage\<close> with a 500.
\<close>

theorem rejected_handler_duplicate_unanswered:
  "routeCalls (fst (run defaultHooks
      [EvReceive \<lparr>idW = 42, msg = MsgRoute ''/x'' ''POST'' PNull None\<rparr>, EvSettle 0 None,
       EvReceive \<lparr>idW = 42, msg = MsgRoute ''/x'' ''POST'' PNull None\<rparr>]
      ((newServer WebSocketStrategy)\<lparr>connected := True\<rparr>, ()))) =
     [(42, MsgRoute ''/x'' ''POST'' PNull None)] \<and>
   getReceivedPairById (fst (run defaultHooks
      [EvReceive \<lparr>idW = 42, msg = MsgRoute ''/x'' ''POST'' PNull None\<rparr>, EvSettle 0 None]
      ((newServer WebSocketStrategy)\<lparr>connected := True\<rparr>, ()))) 42 =
     Some \<lparr>wrapper = \<lparr>idW = 42, msg = MsgRoute ''/x'' ''POST'' PNull None\<rparr>,
           response = TrackedPromise (Promised 0)\<rparr> \<and>
   settled (fst (run defaultHooks
      [EvReceive \<lparr>idW = 42, msg = MsgRoute ''/x'' ''POST'' PNull None\<rparr>, EvSettle 0 None]
      ((newServer WebSocketStrategy)\<lparr>connected := True\<rparr>, ()))) 0 = Some Rejected \<and>
   \<not> isPending (fst (run defaultHooks
      [EvReceive \<lparr>idW = 42, msg = MsgRoute ''/x'' ''POST'' PNull None\<rparr>, EvSettle 0 None]
      ((newServer WebSocketStrategy)\<lparr>connected := True\<rparr>, ()))) (TrackedPromise (Promised 0)) \<and>
   sent (fst (run defaultHooks
      [EvReceive \<lparr>idW = 42, msg = MsgRoute ''/x'' ''POST'' PNull None\<rparr>, EvSettle 0 None,
       EvReceive \<lparr>idW = 42, msg = MsgRoute ''/x'' ''POST'' PNull None\<rparr>]
      ((newServer WebSocketStrategy)\<lparr>connected := True\<rparr>, ()))) = [] \<and>
   sent (fst (run defaultHooks
      [EvReceive \<lparr>idW = 42, msg = MsgRoute ''/x'' ''POST'' PNull None\<rparr>, EvSettle 0 (Some None),
       EvReceive \<lparr>idW = 42, msg = MsgRoute ''/x'' ''POST'' PNull None\<rparr>]
      ((newServer WebSocketStrategy)\<lparr>connected := True\<rparr>, ()))) =
     [\<lparr>idW = -1, msg = MsgResponse 42 200 (PStr ''OK'')\<rparr>,
      \<lparr>idW = -1, msg = MsgResponse 42 200 (PStr ''OK'')\<rparr>] \<and>
   sent (fst (run defaultHooks
      [EvReceive \<lparr>idW = 42, msg = MsgRoute ''/x'' ''POST'' PNull None\<rparr>,
       EvReceive \<lparr>idW = 42, msg = MsgRoute ''/x'' ''POST'' PNull None\<rparr>]
      ((newServer WebSocketStrategy)\<lparr>connected := True\<rparr>, ()))) =
     [\<lparr>idW = -1, msg = MsgResponse 42 202 (PStr ''Message is being processed'')\<rparr>] \<and>
   sent (fst (run defaultHooks
      [EvReceive \<lparr>idW = 42, msg = MsgOther ''bogus''\<rparr>,
       EvReceive \<lparr>idW = 42, msg = MsgOther ''bogus''\<rparr>]
      ((newServer WebSocketStrategy)\<lparr>connected := True\<rparr>, ()))) =
     [\<lparr>idW = -1, msg = MsgResponse 42 500 (PStr ''Error handling message'')\<rparr>,
      \<lparr>idW = -1, msg = MsgResponse 42 500 (PStr ''No response'')\<rparr>]"
  by (simp add: evaluation)

text \<open>
  C2, as stated, fails. A client posts \<open>set secret\<close> with a closure that reads the pair in
  the response, as \<open>setSocket\<close> does for the handshake; the envelope takes the id 0 and an
  entry in \<open>messagesToAck\<close>. The peer answers with status 200 and the data \<open>null\<close>. The
  closure is called and throws, \<open>handleResponse\<close> ends there, and the \<open>catch\<close> of
  \<open>handleMessage\<close> swallows the exception: the callback is still registered and the entry
  of the id 0 is still in \<open>messagesToAck\<close>.
\<close>

theorem throwing_callback_keeps_bookkeeping:
  "callbacks (fst (run pairReaderHooks
      [EvConnected True, EvPost (MsgDataSet ''secret'' (PStr ''abc'')) (Some (UserCallback 0))]
      (newClient WebSocketStrategy ''abc'', ()))) 0 = Some (UserCallback 0) \<and>
   ackIds (fst (run pairReaderHooks
      [EvConnected True, EvPost (MsgDataSet ''secret'' (PStr ''abc'')) (Some (UserCallback 0))]
      (newClient WebSocketStrategy ''abc'', ()))) = [0] \<and>
   threw (handleResponse pairReaderHooks (MsgResponse 0 200 PNull)
      (run pairReaderHooks
         [EvConnected True, EvPost (MsgDataSet ''secret'' (PStr ''abc'')) (Some (UserCallback 0))]
         (newClient WebSocketStrategy ''abc'', ()))) \<and>
   fired (fst (caught (handleResponse pairReaderHooks (MsgResponse 0 200 PNull)
      (run pairReaderHooks
         [EvConnected True, EvPost (MsgDataSet ''secret'' (PStr ''abc'')) (Some (UserCallback 0))]
         (newClient WebSocketStrategy ''abc'', ()))))) =
     [(UserCallback 0, RouteResponseArg \<lparr>rdata = PNull, rerror = PUndefined\<rparr>)] \<and>
   callbacks (fst (caught (handleResponse pairReaderHooks (MsgResponse 0 200 PNull)
      (run pairReaderHooks
         [EvConnected True, EvPost (MsgDataSet ''secret'' (PStr ''abc'')) (Some (UserCallback 0))]
         (newClient WebSocketStrategy ''abc'', ()))))) 0 = Some (UserCallback 0) \<and>
   ackIds (fst (caught (handleResponse pairReaderHooks (MsgResponse 0 200 PNull)
      (run pairReaderHooks
         [EvConnected True, EvPost (MsgDataSet ''secret'' (PStr ''abc'')) (Some (UserCallback 0))]
         (newClient WebSocketStrategy ''abc'', ()))))) = [0] \<and>
   callbacks (fst (run pairReaderHooks
      [EvConnected True, EvPost (MsgDataSet ''secret'' (PStr ''abc'')) (Some (UserCallback 0)),
       EvReceive \<lparr>idW = -1, msg = MsgResponse 0 200 PNull\<rparr>]
      (newClient WebSocketStrategy ''abc'', ()))) 0 = Some (UserCallback 0) \<and>
   ackIds (fst (run pairReaderHooks
      [EvConnected True, EvPost (MsgDataSet ''secret'' (PStr ''abc'')) (Some (UserCallback 0)),
       EvReceive \<lparr>idW = -1, msg = MsgResponse 0 200 PNull\<rparr>]
      (newClient WebSocketStrategy ''abc'', ()))) = [0]"
  by (simp add: evaluation pairReaderHooks_def pairReader_def)

text \<open>
  C2, amended. \<open>handleResponse\<close> on a \<open>res\<close> body: with status 202 it returns with the
  connection and the owner's state as they were (no callback fires, \<open>callbacks\<close> and
  \<open>messagesToAck\<close> keep their values). With any other status the response is translated
  (200 to \<open>{data}\<close>, anything else to \<open>{error: data, data: ""}\<close>) and the callback
  registered for the target id, if there is one, is called exactly once with it.
  \<open>handleResponse\<close> throws exactly when that call throws. When it returns (the call
  returned, or no callback is registered), the callback has left \<open>callbacks\<close> and the entry
  of the target id has left \<open>messagesToAck\<close> (whose ids are distinct in every reachable
  state). When it throws, \<open>callbacks\<close> and \<open>messagesToAck\<close> are as they were: the callback
  is still registered and the entry still listed.
\<close>

theorem handleResponse_bookkeeping:
  "handleResponse h (MsgResponse t 202 d) s = Returned s \<and>
   (st \<noteq> 202 \<longrightarrow>
      fired (fst (caught (handleResponse h (MsgResponse t st d) s))) =
        fired (fst s) @
          (case callbacks (fst s) t of
             Some cb \<Rightarrow>
               [(cb, RouteResponseArg
                       (if st = 200 then \<lparr>rdata = d, rerror = PUndefined\<rparr>
                        else \<lparr>rdata = PStr [], rerror = d\<rparr>))]
           | None \<Rightarrow> []) \<and>
      threw (handleResponse h (MsgResponse t st d) s) =
        (case callbacks (fst s) t of
           Some cb \<Rightarrow>
             isl (invokeCallback h cb
                    (if st = 200 then \<lparr>rdata = d, rerror = PUndefined\<rparr>
                     else \<lparr>rdata = PStr [], rerror = d\<rparr>)
                    (snd s))
         | None \<Rightarrow> False) \<and>
      (\<not> threw (handleResponse h (MsgResponse t st d) s) \<longrightarrow>
         callbacks (fst (caught (handleResponse h (MsgResponse t st d) s))) =
           (callbacks (fst s))(t := None) \<and>
         (distinct (ackIds (fst s)) \<longrightarrow>
            messagesToAck (fst (caught (handleResponse h (MsgResponse t st d) s))) =
              filter (\<lambda>e. idW (wrappedMsg e) \<noteq> t) (messagesToAck (fst s)))) \<and>
      (threw (handleResponse h (MsgResponse t st d) s) \<longrightarrow>
         callbacks (fst (caught (handleResponse h (MsgResponse t st d) s))) = callbacks (fst s) \<and>
         messagesToAck (fst (caught (handleResponse h (MsgResponse t st d) s))) =
           messagesToAck (fst s)))"
proof (intro conjI impI)
  show "handleResponse h (MsgResponse t 202 d) s = Returned s"
    by (simp add: handleResponse_def)
next
  assume "st \<noteq> 202"
  then show "fired (fst (caught (handleResponse h (MsgResponse t st d) s))) =
      fired (fst s) @
        (case callbacks (fst s) t of
           Some cb \<Rightarrow>
             [(cb, RouteResponseArg
                     (if st = 200 then \<lparr>rdata = d, rerror = PUndefined\<rparr>
                      else \<lparr>rdata = PStr [], rerror = d\<rparr>))]
         | None \<Rightarrow> [])"
    by (simp add: handleResponse_def Let_def removeMessageToAck_keeps translateResponse_def
          new_RouteResponse_def new_RouteResponseError_def split: option.splits sum.splits)
next
  assume "st \<noteq> 202"
  then show "threw (handleResponse h (MsgResponse t st d) s) =
      (case callbacks (fst s) t of
         Some cb \<Rightarrow>
           isl (invokeCallback h cb
                  (if st = 200 then \<lparr>rdata = d, rerror = PUndefined\<rparr>
                   else \<lparr>rdata = PStr [], rerror = d\<rparr>)
                  (snd s))
       | None \<Rightarrow> False)"
    by (simp add: handleResponse_def Let_def translateResponse_def
          new_RouteResponse_def new_RouteResponseError_def split: option.splits sum.splits)
next
  assume "st \<noteq> 202" and "\<not> threw (handleResponse h (MsgResponse t st d) s)"
  then show "callbacks (fst (caught (handleResponse h (MsgResponse t st d) s))) =
      (callbacks (fst s))(t := None)"
    by (auto simp: handleResponse_def Let_def removeMessageToAck_keeps
             split: option.splits sum.splits)
next
  assume "st \<noteq> 202" and "\<not> threw (handleResponse h (MsgResponse t st d) s)"
    and "distinct (ackIds (fst s))"
  then show "messagesToAck (fst (caught (handleResponse h (MsgResponse t st d) s))) =
      filter (\<lambda>e. idW (wrappedMsg e) \<noteq> t) (messagesToAck (fst s))"
    by (auto simp: handleResponse_def Let_def removeMessageToAck_filter
             split: option.splits sum.splits)
next
  assume "st \<noteq> 202" and "threw (handleResponse h (MsgResponse t st d) s)"
  then show "callbacks (fst (caught (handleResponse h (MsgResponse t st d) s))) = callbacks (fst s)"
    by (auto simp: handleResponse_def Let_def split: option.splits sum.splits)
next
  assume "st \<noteq> 202" and "threw (handleResponse h (MsgResponse t st d) s)"
  then show "messagesToAck (fst (caught (handleResponse h (MsgResponse t st d) s))) =
      messagesToAck (fst s)"
    by (auto simp: handleResponse_def Let_def split: option.splits sum.splits)
qed

theorem handleResponse_bookkeeping_witness:
  "distinct (ackIds (fst (run defaultHooks [EvConnected True, EvPost MsgPing (Some (UserCallback 7))]
                            (newClient WebSocketStrategy ''abc'', ())))) \<and>
   \<not> threw (handleResponse defaultHooks (MsgResponse 0 500 (PStr ''boom''))
              (run defaultHooks [EvConnected True, EvPost MsgPing (Some (UserCallback 7))]
                 (newClient WebSocketStrategy ''abc'', ()))) \<and>
   fired (fst (caught (handleResponse defaultHooks (MsgResponse 0 500 (PStr ''boom''))
           (run defaultHooks [EvConnected True, EvPost MsgPing (Some (UserCallback 7))]
              (newClient WebSocketStrategy ''abc'', ()))))) =
     [(UserCallback 7, RouteResponseArg \<lparr>rdata = PStr [], rerror = PStr ''boom''\<rparr>)] \<and>
   callbacks (fst (caught (handleResponse defaultHooks (MsgResponse 0 500 (PStr ''boom''))
           (run defaultHooks [EvConnected True, EvPost MsgPing (Some (UserCallback 7))]
              (newClient WebSocketStrategy ''abc'', ()))))) 0 = None \<and>
   map (\<lambda>e. idW (wrappedMsg e))
     (messagesToAck (fst (run defaultHooks [EvConnected True, EvPost MsgPing (Some (UserCallback 7))]
                   (newClient WebSocketStrategy ''abc'', ())))) = [0] \<and>
   messagesToAck (fst (caught (handleResponse defaultHooks (MsgResponse 0 500 (PStr ''boom''))
           (run defaultHooks [EvConnected True, EvPost MsgPing (Some (UserCallback 7))]
              (newClient WebSocketStrategy ''abc'', ()))))) = [] \<and>
   threw (handleResponse pairReaderHooks (MsgResponse 0 200 PNull)
            (run pairReaderHooks [EvConnected True, EvPost MsgPing (Some (UserCallback 7))]
               (newClient WebSocketStrategy ''abc'', ()))) \<and>
   callbacks (fst (caught (handleResponse pairReaderHooks (MsgResponse 0 200 PNull)
           (run pairReaderHooks [EvConnected True, EvPost MsgPing (Some (UserCallback 7))]
              (newClient WebSocketStrategy ''abc'', ()))))) 0 = Some (UserCallback 7) \<and>
   map (\<lambda>e. idW (wrappedMsg e))
     (messagesToAck (fst (caught (handleResponse pairReaderHooks (MsgResponse 0 200 PNull)
           (run pairReaderHooks [EvConnected True, EvPost MsgPing (Some (UserCallback 7))]
              (newClient WebSocketStrategy ''abc'', ())))))) = [0]"
  using handleResponse_bookkeeping [where h = defaultHooks and t = 0 and st = 500 and
      d = "PStr ''boom''" and
      s = "run defaultHooks [EvConnected True, EvPost MsgPing (Some (UserCallback 7))]
             (newClient WebSocketStrategy ''abc'', ())"]
    handleResponse_bookkeeping [where h = pairReaderHooks and t = 0 and st = 200 and
      d = PNull and
      s = "run pairReaderHooks [EvConnected True, EvPost MsgPing (Some (UserCallback 7))]
             (newClient WebSocketStrategy ''abc'', ())"]
  by (simp add: evaluation pairReaderHooks_def pairReader_def)

text \<open>
  C3, as stated, fails: a client whose header holds the secret \<open>abc\<close> receives an inbound
  \<open>set\<close> message for the key \<open>secret\<close>, and \<open>handleDataSet\<close> overwrites the entry.
\<close>

theorem secret_overwritten_by_inbound_set:
  "header (newClient WebSocketStrategy ''abc'') ''secret'' = Some (PStr ''abc'') \<and>
   header (fst (handleMessage defaultHooks \<lparr>idW = 0, msg = MsgDataSet ''secret'' (PStr ''evil'')\<rparr>
                  (newClient WebSocketStrategy ''abc'', ()))) ''secret'' = Some (PStr ''evil'') \<and>
   getSecret (fst (handleMessage defaultHooks \<lparr>idW = 0, msg = MsgDataSet ''secret'' (PStr ''evil'')\<rparr>
                     (newClient WebSocketStrategy ''abc'', ()))) = ''evil''"
  by (simp add: evaluation)

text \<open>
  C3, amended. The header entry \<open>secret\<close> is not protected once it is set. \<open>handleDataSet\<close>
  assigns \<open>header[msg.key] = msg.value\<close> without a guard: an inbound \<open>set\<close> message for the
  key \<open>secret\<close> replaces the entry with its value when it is dispatched (first delivery of
  its id, or id -1). Over any run of events of the connection that delivers no such message
  (other inbound envelopes, responses, sends, the timers, settled handlers, transport
  changes) the entry keeps its value. In the socket-based variant the closure that
  \<open>setSocket\<close> registers writes the entry too when the handshake is answered: the value sent
  back for the key \<open>secret\<close>, or the empty string after an error.
\<close>

theorem secret_changes_only_by_set:
  "(list_all (\<lambda>ev. \<not> setsSecret ev) evs \<longrightarrow>
      header (fst (run h evs s)) ''secret'' = header (fst s) ''secret'') \<and>
   header (fst (handleMessage h \<lparr>idW = i, msg = MsgDataSet ''secret'' v\<rparr> s)) ''secret'' =
     (if i \<noteq> -1 \<and> getReceivedPairById (fst s) i \<noteq> None then header (fst s) ''secret''
      else Some v) \<and>
   header (handshakeCallback err (key, d) c) ''secret'' =
     (if truthy err then Some (PStr [])
      else if key = ''secret'' then Some d else header c ''secret'')"
  using run_secret [of evs h s]
  by (simp add: handleMessage_header handshakeCallback_def)

theorem secret_changes_only_by_set_witness:
  "list_all (\<lambda>ev. \<not> setsSecret ev)
     [EvConnected True, EvReceive \<lparr>idW = 0, msg = MsgDataSet ''name'' (PStr ''x'')\<rparr>,
      EvReceive \<lparr>idW = 1, msg = MsgPing\<rparr>, EvSendToRoute ''/x'' ''GET'' PNull None None,
      EvReceive \<lparr>idW = -1, msg = MsgResponse 0 500 (PStr ''no'')\<rparr>] \<and>
   header (fst (run defaultHooks
     [EvConnected True, EvReceive \<lparr>idW = 0, msg = MsgDataSet ''name'' (PStr ''x'')\<rparr>,
      EvReceive \<lparr>idW = 1, msg = MsgPing\<rparr>, EvSendToRoute ''/x'' ''GET'' PNull None None,
      EvReceive \<lparr>idW = -1, msg = MsgResponse 0 500 (PStr ''no'')\<rparr>]
     (newClient WebSocketStrategy ''abc'', ()))) ''secret'' = Some (PStr ''abc'') \<and>
   header (fst (handleMessage defaultHooks \<lparr>idW = 5, msg = MsgDataSet ''secret'' (PStr ''evil'')\<rparr>
                  (newClient WebSocketStrategy ''abc'', ()))) ''secret'' = Some (PStr ''evil'') \<and>
   header (handshakeCallback (PStr ''rejected'') (''secret'', PStr ''abc'')
             (newClient WebSocketStrategy ''abc'')) ''secret'' = Some (PStr [])"
proof -
  have quiet: "list_all (\<lambda>ev. \<not> setsSecret ev)
     [EvConnected True, EvReceive \<lparr>idW = 0, msg = MsgDataSet ''name'' (PStr ''x'')\<rparr>,
      EvReceive \<lparr>idW = 1, msg = MsgPing\<rparr>, EvSendToRoute ''/x'' ''GET'' PNull None None,
      EvReceive \<lparr>idW = -1, msg = MsgResponse 0 500 (PStr ''no'')\<rparr>]"
    by simp
  have start: "header (newClient WebSocketStrategy ''abc'') ''secret'' = Some (PStr ''abc'')"
    by (simp add: newClient_def newConnection_def)
  have fresh: "getReceivedPairById (newClient WebSocketStrategy ''abc'') 5 = None"
    by (simp add: evaluation)
  from secret_changes_only_by_set [where h = defaultHooks and i = 5 and v = "PStr ''evil''" and
      s = "(newClient WebSocketStrategy ''abc'', ())" and
      evs = "[EvConnected True, EvReceive \<lparr>idW = 0, msg = MsgDataSet ''name'' (PStr ''x'')\<rparr>,
      EvReceive \<lparr>idW = 1, msg = MsgPing\<rparr>, EvSendToRoute ''/x'' ''GET'' PNull None None,
      EvReceive \<lparr>idW = -1, msg = MsgResponse 0 500 (PStr ''no'')\<rparr>]" and
      err = "PStr ''rejected''" and key = "''secret''" and d = "PStr ''abc''" and
      c = "newClient WebSocketStrategy ''abc''"]
    quiet start fresh
  show ?thesis by simp
qed

text \<open>
  C4. \<open>sendToRoute\<close> with the counter over 100 at entry: the callback is called at once
  with the response \<open>{target: -1, status: 429}\<close>, and the call then does what it always
  does: it takes the next id, sends the envelope (tracking it in \<open>messagesToAck\<close>) or queues
  it, adds one to the counter and registers the callback. The last two conjuncts compare
  with the same call under the limit, and with the call without a callback: the results
  differ in the counter, the 429 call and the registered callback only.
\<close>

theorem sendToRoute_over_limit:
  assumes "messagesSentInASecond c > 100"
  shows "\<exists>c1. sendToRoute rt verb payload headers (Some cb) c = Returned c1 \<and>
           fired c1 = fired c @
             [(cb, MsgResponseArg
                     (MsgResponse (-1) 429 (PStr ''Rate limit of 100 messages per second exceeded'')))] \<and>
           nextMsgId c1 = nextMsgId c + 1 \<and>
           messagesSentInASecond c1 = messagesSentInASecond c + 1 \<and>
           callbacks c1 = (callbacks c)(nextMsgId c \<mapsto> cb) \<and>
           sent c1 =
             (if connected c
              then sent c @ [\<lparr>idW = nextMsgId c,
                               msg = MsgRoute rt verb (if truthy payload then payload else PStr []) headers\<rparr>]
              else sent c) \<and>
           messagesToSendAfterReconnect c1 =
             (if connected c then messagesToSendAfterReconnect c
              else messagesToSendAfterReconnect c @
                     [\<lparr>idW = nextMsgId c,
                       msg = MsgRoute rt verb (if truthy payload then payload else PStr []) headers\<rparr>]) \<and>
           (if connected c \<and> nextMsgId c \<noteq> -1
            then nextMsgId c \<in> set (ackIds c1) else ackIds c1 = ackIds c) \<and>
           sendToRoute rt verb payload headers (Some cb) (c\<lparr>messagesSentInASecond := 0\<rparr>) =
             Returned (c1\<lparr>fired := fired c, messagesSentInASecond := 1\<rparr>) \<and>
           sendToRoute rt verb payload headers None c =
             Returned (c1\<lparr>fired := fired c, callbacks := callbacks c\<rparr>)"
proof -
  define m where "m = MsgRoute rt verb (if truthy payload then payload else PStr []) headers"
  define w where "w = \<lparr>idW = nextMsgId c, msg = m\<rparr>"
  define c0 where
    "c0 = c\<lparr>fired := fired c @ [(cb, MsgResponseArg rateLimitResponse)]\<rparr>"
  define c2 where
    "c2 = (if connected c
           then caught (sendWrappedMsg w (-1) (c0\<lparr>nextMsgId := nextMsgId c + 1\<rparr>))
           else c0\<lparr>nextMsgId := nextMsgId c + 1,
                   messagesToSendAfterReconnect := messagesToSendAfterReconnect c @ [w]\<rparr>)"
  define c1 where
    "c1 = c2\<lparr>messagesSentInASecond := messagesSentInASecond c2 + 1,
              callbacks := (callbacks c2)(nextMsgId c \<mapsto> cb)\<rparr>"
  have needs: "messageNeedsAck w \<longleftrightarrow> nextMsgId c \<noteq> -1"
    by (simp add: w_def m_def messageNeedsAck_def isResponse_def)
  have run1: "sendToRoute rt verb payload headers (Some cb) c = Returned c1"
    using assms
    by (simp add: sendToRoute_def SEND_LIMIT_PER_SEC_def new_MsgRoute_def
          postAndExpectResponse_route c1_def c2_def c0_def w_def m_def Let_def)
  have c2_fields: "fired c2 = fired c0" "nextMsgId c2 = nextMsgId c + 1"
    "messagesSentInASecond c2 = messagesSentInASecond c" "callbacks c2 = callbacks c"
    by (simp_all add: c2_def c0_def sendWrappedMsg_fields)
  have c2_sent: "sent c2 = (if connected c then sent c @ [w] else sent c)"
    by (simp add: c2_def c0_def sendWrappedMsg_sent sendWrappedMsg_fields)
  have c2_queue: "messagesToSendAfterReconnect c2 =
      (if connected c then messagesToSendAfterReconnect c
       else messagesToSendAfterReconnect c @ [w])"
    by (simp add: c2_def c0_def sendWrappedMsg_fields)
  have c2_acks: "if connected c \<and> nextMsgId c \<noteq> -1
                 then nextMsgId c \<in> set (ackIds c2) else ackIds c2 = ackIds c"
    using needs by (auto simp: c2_def c0_def sendWrappedMsg_ackIds w_def)
  have run2: "sendToRoute rt verb payload headers (Some cb) (c\<lparr>messagesSentInASecond := 0\<rparr>) =
      Returned (c1\<lparr>fired := fired c, messagesSentInASecond := 1\<rparr>)"
    unfolding c1_def c2_def c0_def w_def m_def
    by (simp add: sendToRoute_def SEND_LIMIT_PER_SEC_def new_MsgRoute_def
          postAndExpectResponse_route Let_def sendWrappedMsg_shape)
  have run3: "sendToRoute rt verb payload headers None c =
      Returned (c1\<lparr>fired := fired c, callbacks := callbacks c\<rparr>)"
    unfolding c1_def c2_def c0_def w_def m_def
    by (simp add: sendToRoute_def SEND_LIMIT_PER_SEC_def new_MsgRoute_def
          postAndExpectResponse_route Let_def sendWrappedMsg_shape)
  show ?thesis
    using run1 run2 run3 c2_fields c2_sent c2_queue c2_acks
    by (intro exI [of _ c1])
       (auto simp: c1_def c0_def rateLimitResponse_def new_MsgResponseWithCode_def w_def m_def)
qed

theorem sendToRoute_over_limit_witness:
  "messagesSentInASecond
     ((newClient WebSocketStrategy ''abc'')\<lparr>connected := True, messagesSentInASecond := 101\<rparr>) > 100 \<and>
   (\<exists>c1. sendToRoute ''/x'' ''POST'' PNull None (Some (UserCallback 1))
            ((newClient WebSocketStrategy ''abc'')\<lparr>connected := True, messagesSentInASecond := 101\<rparr>)
          = Returned c1 \<and>
      fired c1 =
        [(UserCallback 1, MsgResponseArg
            (MsgResponse (-1) 429 (PStr ''Rate limit of 100 messages per second exceeded'')))] \<and>
      nextMsgId c1 = 1 \<and> messagesSentInASecond c1 = 102 \<and>
      callbacks c1 0 = Some (UserCallback 1) \<and>
      sent c1 = [\<lparr>idW = 0, msg = MsgRoute ''/x'' ''POST'' (PStr []) None\<rparr>] \<and>
      ackIds c1 = [0])"
proof -
  have over: "messagesSentInASecond
     ((newClient WebSocketStrategy ''abc'')\<lparr>connected := True, messagesSentInASecond := 101\<rparr>) > 100"
    by simp
  from sendToRoute_over_limit [OF over, of "''/x''" "''POST''" PNull None "UserCallback 1"]
  obtain c1 where c1:
    "sendToRoute ''/x'' ''POST'' PNull None (Some (UserCallback 1))
       ((newClient WebSocketStrategy ''abc'')\<lparr>connected := True, messagesSentInASecond := 101\<rparr>)
     = Returned c1"
    "fired c1 = fired ((newClient WebSocketStrategy ''abc'')\<lparr>connected := True, messagesSentInASecond := 101\<rparr>) @
        [(UserCallback 1, MsgResponseArg
            (MsgResponse (-1) 429 (PStr ''Rate limit of 100 messages per second exceeded'')))]"
    "nextMsgId c1 = nextMsgId ((newClient WebSocketStrategy ''abc'')\<lparr>connected := True, messagesSentInASecond := 101\<rparr>) + 1"
    "messagesSentInASecond c1 = messagesSentInASecond ((newClient WebSocketStrategy ''abc'')\<lparr>connected := True, messagesSentInASecond := 101\<rparr>) + 1"
    by blast
  have "ackIds c1 = [0]" "callbacks c1 0 = Some (UserCallback 1)"
    "sent c1 = [\<lparr>idW = 0, msg = MsgRoute ''/x'' ''POST'' (PStr []) None\<rparr>]"
    using c1(1) by (auto simp: evaluation)
  with over c1 show ?thesis by (simp add: evaluation)
qed

text \<open>
  C5. \<open>messagesToAck\<close> holds at most one entry per id at every point of a connection's life:
  in every state reached from a new connection, and after every run from a state where it
  holds. \<open>sendWrappedMsg\<close> appends an entry (\<open>sentAmount = 1\<close>, \<open>sentAt = now\<close>) only when no
  entry has the id, and otherwise adds one to \<open>sentAmount\<close> and refreshes \<open>sentAt\<close> of the entry
  of that id; \<open>removeMessageToAck\<close> removes the one entry of the id, if there is one.
\<close>

theorem messagesToAck_one_entry_per_id:
  "distinct (ackIds (fst (run h evs (newConnection k secret client, env)))) \<and>
   (distinct (ackIds c) \<longrightarrow>
      distinct (ackIds (fst (run h evs (c, env)))) \<and>
      distinct (ackIds (caught (sendWrappedMsg w sentIdx c))) \<and>
      distinct (ackIds (removeMessageToAck mid c)) \<and>
      messagesToAck (removeMessageToAck mid c) =
        filter (\<lambda>e. idW (wrappedMsg e) \<noteq> mid) (messagesToAck c) \<and>
      (messageNeedsAck w \<and> idW w \<in> set (ackIds c) \<longrightarrow>
         messagesToAck (caught (sendWrappedMsg w (-1) c)) =
           map (\<lambda>e. if idW (wrappedMsg e) = idW w
                     then e\<lparr>sentAmount := sentAmount e + 1, sentAt := now c\<rparr> else e)
               (messagesToAck c))) \<and>
   (messageNeedsAck w \<and> idW w \<notin> set (ackIds c) \<longrightarrow>
      messagesToAck (caught (sendWrappedMsg w (-1) c)) =
        messagesToAck c @ [\<lparr>wrappedMsg = w, sentAt = now c, sentAmount = 1\<rparr>]) \<and>
   (\<not> messageNeedsAck w \<longrightarrow>
      messagesToAck (caught (sendWrappedMsg w sentIdx c)) = messagesToAck c) \<and>
   (length (messagesToAck (removeMessageToAck mid c)) = length (messagesToAck c) \<or>
    Suc (length (messagesToAck (removeMessageToAck mid c))) = length (messagesToAck c))"
proof -
  have start: "distinct (ackIds (newConnection k secret client))"
    by (simp add: newConnection_def)
  have "distinct (ackIds (fst (run h evs (newConnection k secret client, env))))"
    using run_unique [of "(newConnection k secret client, env)" h evs] start by simp
  moreover have "distinct (ackIds (fst (run h evs (c, env))))" if "distinct (ackIds c)"
    using run_unique [of "(c, env)" h evs] that by simp
  moreover have "messagesToAck (caught (sendWrappedMsg w sentIdx c)) = messagesToAck c"
    if "\<not> messageNeedsAck w"
    using that by (simp add: sendWrappedMsg_def strategySend_fields)
  moreover have "length (messagesToAck (removeMessageToAck mid c)) = length (messagesToAck c) \<or>
    Suc (length (messagesToAck (removeMessageToAck mid c))) = length (messagesToAck c)"
    using removeAckFrom_length [of "length (messagesToAck c)" "messagesToAck c" mid]
    by (simp add: removeMessageToAck_def)
  ultimately show ?thesis
    using sendWrappedMsg_unique [of c w sentIdx] removeMessageToAck_unique [of c mid]
      removeMessageToAck_filter [of c mid] sendWrappedMsg_upsert [of w c]
      sendWrappedMsg_push [of w c]
    by blast
qed

theorem messagesToAck_one_entry_per_id_witness:
  "ackIds (fst (run defaultHooks
             [EvConnected True, EvPost MsgPing None, EvPost MsgPing None, EvClock 5]
             (newConnection WebSocketStrategy ''abc'' True, ()))) = [0, 1] \<and>
   messagesToAck
     (caught (sendWrappedMsg \<lparr>idW = 1, msg = MsgPing\<rparr> (-1)
        (fst (run defaultHooks
                [EvConnected True, EvPost MsgPing None, EvPost MsgPing None, EvClock 5]
                (newConnection WebSocketStrategy ''abc'' True, ()))))) =
     [\<lparr>wrappedMsg = \<lparr>idW = 0, msg = MsgPing\<rparr>, sentAt = 0, sentAmount = 1\<rparr>,
      \<lparr>wrappedMsg = \<lparr>idW = 1, msg = MsgPing\<rparr>, sentAt = 5, sentAmount = 2\<rparr>] \<and>
   messagesToAck
     (caught (sendWrappedMsg \<lparr>idW = 7, msg = MsgPing\<rparr> (-1)
        (fst (run defaultHooks
                [EvConnected True, EvPost MsgPing None, EvPost MsgPing None, EvClock 5]
                (newConnection WebSocketStrategy ''abc'' True, ()))))) =
     [\<lparr>wrappedMsg = \<lparr>idW = 0, msg = MsgPing\<rparr>, sentAt = 0, sentAmount = 1\<rparr>,
      \<lparr>wrappedMsg = \<lparr>idW = 1, msg = MsgPing\<rparr>, sentAt = 0, sentAmount = 1\<rparr>,
      \<lparr>wrappedMsg = \<lparr>idW = 7, msg = MsgPing\<rparr>, sentAt = 5, sentAmount = 1\<rparr>] \<and>
   messagesToAck
     (removeMessageToAck 0
        (fst (run defaultHooks
                [EvConnected True, EvPost MsgPing None, EvPost MsgPing None, EvClock 5]
                (newConnection WebSocketStrategy ''abc'' True, ())))) =
     [\<lparr>wrappedMsg = \<lparr>idW = 1, msg = MsgPing\<rparr>, sentAt = 0, sentAmount = 1\<rparr>]"
  using messagesToAck_one_entry_per_id [where h = defaultHooks and env = "()" and
      evs = "[EvConnected True, EvPost MsgPing None, EvPost MsgPing None, EvClock 5]" and
      k = WebSocketStrategy and secret = "''abc''" and client = True and
      c = "fst (run defaultHooks
                [EvConnected True, EvPost MsgPing None, EvPost MsgPing None, EvClock 5]
                (newConnection WebSocketStrategy ''abc'' True, ()))" and
      w = "\<lparr>idW = 1, msg = MsgPing\<rparr>" and sentIdx = "-1" and mid = 0]
    messagesToAck_one_entry_per_id [where h = defaultHooks and env = "()" and
      evs = "[]" and k = WebSocketStrategy and secret = "''abc''" and client = True and
      c = "fst (run defaultHooks
                [EvConnected True, EvPost MsgPing None, EvPost MsgPing None, EvClock 5]
                (newConnection WebSocketStrategy ''abc'' True, ()))" and
      w = "\<lparr>idW = 7, msg = MsgPing\<rparr>" and sentIdx = "-1" and mid = 0]
  by (simp add: evaluation)

text \<open>
  C6. A broadcast with an excepted connection that meets a listener whose connection has
  left the directory calls \<open>sendToRoute\<close> on \<open>undefined\<close> and ends there. Connections
  \<open>a\<close> and \<open>b\<close> listen to \<open>/t/1\<close>, and \<open>c\<close> is excepted: the broadcast reaches both. After
  \<open>removeConnection a\<close>, which leaves the listener of \<open>a\<close> in the layer, the same broadcast
  throws before it reaches \<open>b\<close>, although \<open>b\<close> is the one connection that is not excepted,
  whose parameters equal the captured ones and whose validator accepts.
\<close>

theorem broadcast_stops_at_stale_listener:
  "broadcastPost ''/t/1'' (PStr ''p'') (Some 2)
     \<lparr>nextRouteSubID = 1, connections = [''a'' \<mapsto> 0, ''b'' \<mapsto> 1, ''c'' \<mapsto> 2],
      outRoutes = [topicLayer [\<lparr>conn = ''a'', params = [''1'']\<rparr>,
                               \<lparr>conn = ''b'', params = [''1'']\<rparr>]]\<rparr>
   = Returned [Now 0, Now 1] \<and>
   broadcastPost ''/t/1'' (PStr ''p'') (Some 2)
     (removeConnection ''a''
        \<lparr>nextRouteSubID = 1, connections = [''a'' \<mapsto> 0, ''b'' \<mapsto> 1, ''c'' \<mapsto> 2],
         outRoutes = [topicLayer [\<lparr>conn = ''a'', params = [''1'']\<rparr>,
                                  \<lparr>conn = ''b'', params = [''1'']\<rparr>]]\<rparr>)
   = Threw (TypeError ''Cannot read properties of undefined'') [] \<and>
   receivers
     (removeConnection ''a''
        \<lparr>nextRouteSubID = 1, connections = [''a'' \<mapsto> 0, ''b'' \<mapsto> 1, ''c'' \<mapsto> 2],
         outRoutes = [topicLayer [\<lparr>conn = ''a'', params = [''1'']\<rparr>,
                                  \<lparr>conn = ''b'', params = [''1'']\<rparr>]]\<rparr>)
     (Some 2)
     (topicLayer [\<lparr>conn = ''a'', params = [''1'']\<rparr>, \<lparr>conn = ''b'', params = [''1'']\<rparr>])
     [''1'']
     [\<lparr>conn = ''a'', params = [''1'']\<rparr>, \<lparr>conn = ''b'', params = [''1'']\<rparr>] = {1}"
  by (simp add: broadcastPost_def internalBroadcast_def removeConnection_def Let_def
        topicLayer_def topicMatch_1 receivers_Cons receivers_Nil)

text \<open>
  C7. \<open>removeConnection\<close> deletes the directory entry, but the listener of the removed
  connection stays in its outbound layer: the filtered list is computed and dropped.
  Evaluated for a router whose one connection \<open>s1\<close> is subscribed to \<open>/t/1\<close>.
\<close>

theorem removeConnection_keeps_listeners:
  "connections
     (removeConnection ''s1''
        \<lparr>nextRouteSubID = 1, connections = [''s1'' \<mapsto> 0],
         outRoutes = [topicLayer [\<lparr>conn = ''s1'', params = [''1'']\<rparr>]]\<rparr>) ''s1'' = None
   \<and> map listeners
         (outRoutes
            (removeConnection ''s1''
               \<lparr>nextRouteSubID = 1, connections = [''s1'' \<mapsto> 0],
                outRoutes = [topicLayer [\<lparr>conn = ''s1'', params = [''1'']\<rparr>]]\<rparr>))
       = [[\<lparr>conn = ''s1'', params = [''1'']\<rparr>]]"
  by (simp add: removeConnection_def Let_def topicLayer_def)




text \<open>
  C9. When the dispatch of an inbound envelope with id other than -1 throws (an unknown
  message type does), the peer is sent status 500 with \<open>"Error handling message"\<close>, while
  \<open>receivedMessages\<close> keeps status 500 with \<open>"No response"\<close> for that id; a second delivery
  of the envelope is answered from there, with a body the first answer did not have.
\<close>

theorem failed_dispatch_reply_differs_from_cache:
  assumes "idW w \<noteq> -1" and "getReceivedPairById c (idW w) = None"
    and "dispatch h w (c, env) = Threw e (resp, c1, env1)"
  shows "dispatch h \<lparr>idW = idW w, msg = MsgOther t\<rparr> (c, env) =
           Threw (Error ''Unknown message type'') (None, c, env) \<and>
         snd (handleMessage h w (c, env)) = env1 \<and>
         sent (fst (handleMessage h w (c, env))) =
           (if connected c
            then sent c @ [\<lparr>idW = -1,
                             msg = MsgResponse (idW w) 500 (PStr ''Error handling message'')\<rparr>]
            else sent c) \<and>
         getReceivedPairById (fst (handleMessage h w (c, env))) (idW w) =
           Some \<lparr>wrapper = w,
                 response = TrackedPromise (Value (MsgResponse (idW w) 500 (PStr ''No response'')))\<rparr> \<and>
         handleMessage h w (handleMessage h w (c, env)) =
           (postAndForget (Value (MsgResponse (idW w) 500 (PStr ''No response'')))
              (fst (handleMessage h w (c, env))), env1) \<and>
         sent (fst (handleMessage h w (handleMessage h w (c, env)))) =
           (if connected c
            then sent c @ [\<lparr>idW = -1,
                             msg = MsgResponse (idW w) 500 (PStr ''Error handling message'')\<rparr>,
                           \<lparr>idW = -1, msg = MsgResponse (idW w) 500 (PStr ''No response'')\<rparr>]
            else sent c)"
proof -
  define c2 where
    "c2 = rememberReceived w (Value (MsgResponse (idW w) 500 (PStr ''No response'')))
            (postAndForget (Value (MsgResponse (idW w) 500 (PStr ''Error handling message''))) c1)"
  have first: "handleMessage h w (c, env) = (c2, env1)"
    using assms
    by (simp add: handleMessage_first c2_def new_MsgGenericError_def new_MsgResponseWithCode_def)
  have c1: "sent c1 = sent c" "connected c1 = connected c"
    using dispatch_keeps(2,3) [of h w "(c, env)"] assms(3) by simp_all
  have stored: "getReceivedPairById c2 (idW w) =
      Some \<lparr>wrapper = w,
            response = TrackedPromise (Value (MsgResponse (idW w) 500 (PStr ''No response'')))\<rparr>"
    by (simp add: c2_def getReceivedPairById_remember)
  have sent2: "sent c2 =
      (if connected c
       then sent c @ [\<lparr>idW = -1,
                        msg = MsgResponse (idW w) 500 (PStr ''Error handling message'')\<rparr>]
       else sent c)" and conn2: "connected c2 = connected c"
    using c1 by (simp_all add: c2_def rememberReceived_keeps postAndForget_sent postAndForget_keeps)
  have second: "handleMessage h w (c2, env1) =
      (postAndForget (Value (MsgResponse (idW w) 500 (PStr ''No response''))) c2, env1)"
    using assms(1) stored
    by (simp add: handleMessage_duplicate [where pair =
          "\<lparr>wrapper = w,
            response = TrackedPromise (Value (MsgResponse (idW w) 500 (PStr ''No response'')))\<rparr>"]
          isPending_def)
  have unknown: "dispatch h \<lparr>idW = idW w, msg = MsgOther t\<rparr> (c, env) =
      Threw (Error ''Unknown message type'') (None, c, env)"
    by (simp add: dispatch_def)
  show ?thesis
    using first stored sent2 conn2 second unknown by (simp add: postAndForget_sent)
qed

theorem failed_dispatch_reply_differs_from_cache_witness:
  "dispatch defaultHooks \<lparr>idW = 3, msg = MsgOther ''bogus''\<rparr>
     ((newServer WebSocketStrategy)\<lparr>connected := True\<rparr>, ()) =
     Threw (Error ''Unknown message type'')
       (None, (newServer WebSocketStrategy)\<lparr>connected := True\<rparr>, ()) \<and>
   sent (fst (handleMessage defaultHooks \<lparr>idW = 3, msg = MsgOther ''bogus''\<rparr>
                ((newServer WebSocketStrategy)\<lparr>connected := True\<rparr>, ()))) =
     [\<lparr>idW = -1, msg = MsgResponse 3 500 (PStr ''Error handling message'')\<rparr>] \<and>
   map response
     (receivedMessages
        (fst (handleMessage defaultHooks \<lparr>idW = 3, msg = MsgOther ''bogus''\<rparr>
                ((newServer WebSocketStrategy)\<lparr>connected := True\<rparr>, ())))) =
     [TrackedPromise (Value (MsgResponse 3 500 (PStr ''No response'')))] \<and>
   sent (fst (handleMessage defaultHooks \<lparr>idW = 3, msg = MsgOther ''bogus''\<rparr>
                (handleMessage defaultHooks \<lparr>idW = 3, msg = MsgOther ''bogus''\<rparr>
                   ((newServer WebSocketStrategy)\<lparr>connected := True\<rparr>, ())))) =
     [\<lparr>idW = -1, msg = MsgResponse 3 500 (PStr ''Error handling message'')\<rparr>,
      \<lparr>idW = -1, msg = MsgResponse 3 500 (PStr ''No response'')\<rparr>]"
proof -
  have a: "idW \<lparr>idW = 3, msg = MsgOther ''bogus''\<rparr> \<noteq> -1" by simp
  have b: "getReceivedPairById ((newServer WebSocketStrategy)\<lparr>connected := True\<rparr>)
             (idW \<lparr>idW = 3, msg = MsgOther ''bogus''\<rparr>) = None"
    by (simp add: evaluation)
  have c: "dispatch defaultHooks \<lparr>idW = 3, msg = MsgOther ''bogus''\<rparr>
     ((newServer WebSocketStrategy)\<lparr>connected := True\<rparr>, ()) =
     Threw (Error ''Unknown message type'')
       (None, (newServer WebSocketStrategy)\<lparr>connected := True\<rparr>, ())"
    by (simp add: dispatch_def)
  from failed_dispatch_reply_differs_from_cache [OF a b c, of "''bogus''"]
  show ?thesis by (simp add: evaluation)
qed

text \<open>
  C10. A server connection whose secret has no entry in the router's directory receives
  \<open>on {route}\<close> with an id other than -1: \<open>subscribeConnectionToRoute\<close> throws, the sender
  is answered with status 500 and \<open>"Error handling message"\<close>, and the router is left as it
  was, so no listener has been added.
\<close>

theorem subscription_before_registration:
  assumes "idW w \<noteq> -1" and "msg w = MsgSubscribeToRoute path"
    and "connections r (getSecret c) = None" and "getReceivedPairById c (idW w) = None"
  shows "subscribeConnectionToRoute path (getSecret c) r =
           Inl (Error (''Connection with id '' @ getSecret c @ '' does not exist'')) \<and>
         snd (handleMessage (routerHooks cr) w (c, r)) = r \<and>
         sent (fst (handleMessage (routerHooks cr) w (c, r))) =
           (if connected c
            then sent c @ [\<lparr>idW = -1,
                             msg = MsgResponse (idW w) 500 (PStr ''Error handling message'')\<rparr>]
            else sent c) \<and>
         getReceivedPairById (fst (handleMessage (routerHooks cr) w (c, r))) (idW w) =
           Some \<lparr>wrapper = w,
                 response = TrackedPromise (Value (MsgResponse (idW w) 500 (PStr ''No response'')))\<rparr>"
proof -
  have throws: "subscribeConnectionToRoute path (getSecret c) r =
      Inl (Error (''Connection with id '' @ getSecret c @ '' does not exist''))"
    using assms(3) by (simp add: subscribeConnectionToRoute_def)
  then have "dispatch (routerHooks cr) w (c, r) =
      Threw (Error (''Connection with id '' @ getSecret c @ '' does not exist'')) (None, c, r)"
    using assms(2) by (simp add: dispatch_def handleRouteSubscription_def routerHooks_def)
  with assms(1,4) throws show ?thesis
    by (simp add: handleMessage_first rememberReceived_keeps postAndForget_sent
          getReceivedPairById_remember new_MsgGenericError_def new_MsgResponseWithCode_def)
qed

theorem subscription_before_registration_witness:
  "connections \<lparr>nextRouteSubID = 1, connections = Map.empty, outRoutes = [topicLayer []]\<rparr>
     (getSecret ((newServer WebSocketStrategy)\<lparr>connected := True\<rparr>)) = None \<and>
   handleMessage (routerHooks 0) \<lparr>idW = 0, msg = MsgSubscribeToRoute ''/t/1''\<rparr>
     ((newServer WebSocketStrategy)\<lparr>connected := True\<rparr>,
      \<lparr>nextRouteSubID = 1, connections = Map.empty, outRoutes = [topicLayer []]\<rparr>) =
   ((newServer WebSocketStrategy)
      \<lparr>connected := True,
       sent := [\<lparr>idW = -1, msg = MsgResponse 0 500 (PStr ''Error handling message'')\<rparr>],
       receivedMessages :=
         [\<lparr>wrapper = \<lparr>idW = 0, msg = MsgSubscribeToRoute ''/t/1''\<rparr>,
           response = TrackedPromise (Value (MsgResponse 0 500 (PStr ''No response'')))\<rparr>]\<rparr>,
    \<lparr>nextRouteSubID = 1, connections = Map.empty, outRoutes = [topicLayer []]\<rparr>)"
proof -
  have a: "idW \<lparr>idW = 0, msg = MsgSubscribeToRoute ''/t/1''\<rparr> \<noteq> -1" by simp
  have b: "msg \<lparr>idW = 0, msg = MsgSubscribeToRoute ''/t/1''\<rparr> = MsgSubscribeToRoute ''/t/1''"
    by simp
  have c: "connections \<lparr>nextRouteSubID = 1, connections = Map.empty, outRoutes = [topicLayer []]\<rparr>
     (getSecret ((newServer WebSocketStrategy)\<lparr>connected := True\<rparr>)) = None"
    by simp
  have d: "getReceivedPairById ((newServer WebSocketStrategy)\<lparr>connected := True\<rparr>)
             (idW \<lparr>idW = 0, msg = MsgSubscribeToRoute ''/t/1''\<rparr>) = None"
    by (simp add: evaluation)
  from subscription_before_registration [OF a b c d, of 0]
  show ?thesis
    by (simp add: evaluation routerHooks_def subscribeConnectionToRoute_def)
qed

end
